theory Spec2Isabelle
  imports Main
begin

section \<open>Vehicle image generator: data model\<close>

text \<open>
  The repository holds two variants of one script. Both define a class
  \<open>VehicleImageGenerator\<close> that talks to a remote table \<open>vehicle\<close> and to a
  remote image provider. The variant with the three-argument
  \<open>updateVehicleImage\<close>, \<open>testConnections\<close> and \<open>processVehicles\<close> keeps
  the names of its methods here; where the file \<open>VehicleImageGenerator.js\<close>
  defines a method of the same name with a different body, its definition
  carries the suffix \<open>_v1\<close>.

  A row of the table. The column \<open>id\<close> is called \<open>id_col\<close>, since \<open>id\<close> is
  the identity function of HOL. A nullable column is an \<open>option\<close>.
\<close>

record vehicle =
  id_col :: int
  vehicletype :: string
  vehiclegraphic :: "string option"
  updated_at :: "string option"

text \<open>
  What the script can throw: the \<open>Error\<close> built by \<open>updateVehicleImage\<close> for an
  unknown id, the \<open>error\<close> member of a reply of the table client, an error thrown
  by the provider client, and the \<open>TypeError\<close> of reading a property of
  \<open>undefined\<close>.
\<close>

datatype err =
    NotFoundError int
  | StoreError string
  | ProviderError string
  | TypeError

text \<open>
  The argument of \<open>openai.images.generate\<close> (its keys \<open>model\<close>, \<open>prompt\<close>,
  \<open>size\<close>, \<open>quality\<close>, \<open>style\<close>, \<open>n\<close>, prefixed here) and one element of the
  \<open>data\<close> array of its reply.
\<close>

record image_request =
  req_model :: string
  req_prompt :: string
  req_size :: string
  req_quality :: string
  req_style :: string
  req_n :: nat

record image =
  url :: string

text \<open>
  Everything the script does to the outside world, in order: console lines
  (the fixed text of the template, with \<open>{}\<close> where the source interpolates,
  and the interpolated values), requests to the table, requests to the
  provider, and the pacing timer.
\<close>

datatype arg = S string | N nat | I int | E err | L "string list"

datatype event =
    Log string "arg list"
  | LogError string "arg list"
  | DbProbe
  | DbSelectMissing
  | DbSelectAll
  | DbSelectSingle int
  | DbUpdate int string string
  | ModelsList
  | ImagesGenerate image_request
  | Delay nat

text \<open>
  The remote side. The table client resolves to an object \<open>{data, error}\<close> and
  does not throw; the provider client throws. Each field decides the outcome
  of one call site; the per-record calls are indexed by the loop counter
  \<open>i\<close>. \<open>clock i\<close> is \<open>new Date().toISOString()\<close> at the update of record
  \<open>i\<close>. A request that fails leaves the table as it was.
\<close>

record remote =
  db_probe :: "string option"
  models_list :: "string option"
  db_select_first :: "string option"
  db_select :: "string option"
  db_select_display :: "string option"
  images_generate :: "nat \<Rightarrow> image_request \<Rightarrow> string + image list"
  db_single :: "nat \<Rightarrow> string option"
  db_update :: "nat \<Rightarrow> string option"
  clock :: "nat \<Rightarrow> string"

text \<open>\<open>process.env\<close>: a variable is unset or a string.\<close>

type_synonym environ = "string \<Rightarrow> string option"

text \<open>
  JavaScript truthiness of a value that is \<open>null\<close>/\<open>undefined\<close> or a string:
  the empty string is falsy.
\<close>

definition truthy :: "string option \<Rightarrow> bool" where
  "truthy v = (case v of None \<Rightarrow> False | Some s \<Rightarrow> s \<noteq> [])"

section \<open>Prompt builder\<close>

definition generateImagePrompt :: "string \<Rightarrow> string" where
  "generateImagePrompt vtype =
     ''A photo-realistic, ultra-detailed image of a '' @ vtype @
     '' in pristine condition, \<newline>        captured at a 3/4 front angle on a sleek, modern showroom floor with professional lighting. \<newline>        The flawless paint reflects perfectly, showcasing chrome accents and tire details. The \<newline>        background features a soft gray-to-white gradient for depth. High-resolution, showroom-quality, \<newline>        with no people and no text.''"

definition generateImagePrompt_v1 :: "string \<Rightarrow> string" where
  "generateImagePrompt_v1 vtype =
     ''A photo-realistic, ultra-detailed image of a '' @ vtype @
     '' in pristine condition, \<newline>        captured at a 3/4 front angle on a sleek, modern showroom floor with professional lighting. \<newline>        The flawless paint reflects perfectly, showcasing chrome accents and tire details. The \<newline>        background features a soft gray-to-white gradient for depth. High-resolution, showroom-quality, \<newline>        with no people, text, or logos aside from the manufacturer's badges.''"

section \<open>Configuration check\<close>

definition requiredVars :: "string list" where
  "requiredVars = [''SUPABASE_URL'', ''SUPABASE_ANON_KEY'', ''OPENAI_API_KEY'']"

text \<open>
  \<open>testEnvironmentVariables\<close> of \<open>VehicleImageGenerator.js\<close>: the loop over
  \<open>requiredVars\<close>, carrying \<open>allFound\<close>.
\<close>

fun checkVars :: "environ \<Rightarrow> string list \<Rightarrow> bool \<Rightarrow> bool \<times> event list" where
  "checkVars penv [] allFound = (allFound, [])"
| "checkVars penv (varName # rest) allFound =
     (if truthy (penv varName)
      then (let (b, ev) = checkVars penv rest allFound
            in (b, Log ''   {}: Found'' [S varName] # ev))
      else (let (b, ev) = checkVars penv rest False
            in (b, Log ''   {}: Missing'' [S varName] # ev)))"

definition testEnvironmentVariables :: "environ \<Rightarrow> bool \<times> event list" where
  "testEnvironmentVariables penv =
     (let (allFound, ev) = checkVars penv requiredVars True
      in (allFound,
          [Log '' Checking environment variables...'' []] @ ev @
          (if \<not> allFound
           then [Log ''\<newline> Please check your .env file and ensure all required variables are set.'' []]
           else [])))"

text \<open>
  The first lines of \<open>testConnections\<close>:
  \<open>requiredVars.filter(varName => !process.env[varName])\<close>.
\<close>

definition missingVars :: "environ \<Rightarrow> string list" where
  "missingVars penv = filter (\<lambda>varName. \<not> truthy (penv varName)) requiredVars"

section \<open>Connectivity checks\<close>

text \<open>
  \<open>testConnection\<close> and \<open>testOpenAIConnection\<close> of \<open>VehicleImageGenerator.js\<close>.
  The probe is a \<open>select\<close> with an exact count and \<open>limit(1)\<close>; its reply
  is destructured and \<open>if (error) throw error\<close> sends a failure to the
  \<open>catch\<close>, which returns \<open>false\<close>.
\<close>

definition testConnection :: "remote \<Rightarrow> vehicle list \<Rightarrow> bool \<times> event list" where
  "testConnection rm rows =
     (case db_probe rm of
        Some e \<Rightarrow>
          (False, [Log '' Testing database connection...'' [], DbProbe,
                   LogError '' Database connection failed:'' [E (StoreError e)]])
      | None \<Rightarrow>
          (True, [Log '' Testing database connection...'' [], DbProbe,
                  Log '' Database connection successful!'' [],
                  Log '' Found {} vehicle(s) in database'' [N (length rows)]]))"

definition testOpenAIConnection :: "remote \<Rightarrow> bool \<times> event list" where
  "testOpenAIConnection rm =
     (case models_list rm of
        Some e \<Rightarrow>
          (False, [Log '' Testing OpenAI connection...'' [], ModelsList,
                   LogError '' OpenAI connection failed:'' [E (ProviderError e)]])
      | None \<Rightarrow>
          (True, [Log '' Testing OpenAI connection...'' [], ModelsList,
                  Log '' OpenAI connection successful!'' []]))"

text \<open>
  \<open>testConnections\<close> of the other variant. The reply of the probe is awaited
  and dropped: the \<open>error\<close> member it may carry is never read, so only an
  exception of \<open>openai.models.list()\<close> reaches the \<open>catch\<close>.
\<close>

definition testConnections :: "environ \<Rightarrow> remote \<Rightarrow> bool \<times> event list" where
  "testConnections penv rm =
     (if length (missingVars penv) > 0
      then (False, [Log '' Testing connections...'' [],
                    LogError '' Missing environment variables: {}'' [L (missingVars penv)]])
      else (let dropped = db_probe rm
            in (case models_list rm of
                  Some e \<Rightarrow>
                    (False, [Log '' Testing connections...'' [], DbProbe, ModelsList,
                             LogError '' Connection failed:'' [E (ProviderError e)]])
                | None \<Rightarrow>
                    (True, [Log '' Testing connections...'' [], DbProbe, ModelsList,
                            Log '' All connections successful!'' []]))))"

section \<open>Image provider client\<close>

text \<open>
  \<open>generateVehicleImage\<close>: one request; \<open>response.data[0].url\<close> is read after
  the success line is printed, and throws a \<open>TypeError\<close> when \<open>data\<close> is
  empty. The \<open>catch\<close> prints and rethrows. The two variants differ in the
  prompt builder they call.
\<close>

definition generateVehicleImage :: "remote \<Rightarrow> nat \<Rightarrow> string \<Rightarrow> (err + string) \<times> event list" where
  "generateVehicleImage rm i vtype =
     (let req = \<lparr>req_model = ''dall-e-3'', req_prompt = generateImagePrompt vtype,
                 req_size = ''1024x1024'', req_quality = ''hd'', req_style = ''vivid'',
                 req_n = 1\<rparr>
      in (case images_generate rm i req of
            Inl e \<Rightarrow>
              (Inl (ProviderError e),
               [Log '' Generating image for: {}'' [S vtype], ImagesGenerate req,
                LogError '' Error generating image for {}:'' [S vtype, E (ProviderError e)]])
          | Inr dat \<Rightarrow>
              (case dat of
                 [] \<Rightarrow>
                   (Inl TypeError,
                    [Log '' Generating image for: {}'' [S vtype], ImagesGenerate req,
                     Log '' Image generated successfully for: {}'' [S vtype],
                     LogError '' Error generating image for {}:'' [S vtype, E TypeError]])
               | img # others \<Rightarrow>
                   (Inr (url img),
                    [Log '' Generating image for: {}'' [S vtype], ImagesGenerate req,
                     Log '' Image generated successfully for: {}'' [S vtype]]))))"

definition generateVehicleImage_v1 :: "remote \<Rightarrow> nat \<Rightarrow> string \<Rightarrow> (err + string) \<times> event list" where
  "generateVehicleImage_v1 rm i vtype =
     (let req = \<lparr>req_model = ''dall-e-3'', req_prompt = generateImagePrompt_v1 vtype,
                 req_size = ''1024x1024'', req_quality = ''hd'', req_style = ''vivid'',
                 req_n = 1\<rparr>
      in (case images_generate rm i req of
            Inl e \<Rightarrow>
              (Inl (ProviderError e),
               [Log '' Generating image for: {}'' [S vtype], ImagesGenerate req,
                LogError '' Error generating image for {}:'' [S vtype, E (ProviderError e)]])
          | Inr dat \<Rightarrow>
              (case dat of
                 [] \<Rightarrow>
                   (Inl TypeError,
                    [Log '' Generating image for: {}'' [S vtype], ImagesGenerate req,
                     Log '' Image generated successfully for: {}'' [S vtype],
                     LogError '' Error generating image for {}:'' [S vtype, E TypeError]])
               | img # others \<Rightarrow>
                   (Inr (url img),
                    [Log '' Generating image for: {}'' [S vtype], ImagesGenerate req,
                     Log '' Image generated successfully for: {}'' [S vtype]]))))"

section \<open>Record store client\<close>

text \<open>
  The table is the list of its rows. \<open>.eq('id', vehicleId).single()\<close> yields
  \<open>data\<close> only when the request succeeds and exactly one row matches;
  otherwise \<open>data\<close> is \<open>null\<close>. \<open>.update({...}).eq('id', vehicleId)\<close> rewrites
  every matching row.
\<close>

definition select_single :: "string option \<Rightarrow> vehicle list \<Rightarrow> int \<Rightarrow> vehicle option" where
  "select_single failure rows vehicleId =
     (case failure of
        Some e \<Rightarrow> None
      | None \<Rightarrow>
          (case filter (\<lambda>r. id_col r = vehicleId) rows of
             [r] \<Rightarrow> Some r
           | _ \<Rightarrow> None))"

definition update_by_id :: "vehicle list \<Rightarrow> int \<Rightarrow> string \<Rightarrow> string \<Rightarrow> vehicle list" where
  "update_by_id rows vehicleId imageUrl now =
     map (\<lambda>r. if id_col r = vehicleId
               then r\<lparr>vehiclegraphic := Some imageUrl, updated_at := Some now\<rparr>
               else r) rows"

definition updateVehicleImage ::
  "remote \<Rightarrow> nat \<Rightarrow> vehicle list \<Rightarrow> int \<Rightarrow> string \<Rightarrow> bool \<Rightarrow> (err + bool) \<times> vehicle list \<times> event list" where
  "updateVehicleImage rm i rows vehicleId imageUrl forceUpdate =
     (case select_single (db_single rm i) rows vehicleId of
        None \<Rightarrow>
          (Inl (NotFoundError vehicleId), rows,
           [DbSelectSingle vehicleId,
            LogError ''Error updating vehicle {}:'' [I vehicleId, E (NotFoundError vehicleId)]])
      | Some current \<Rightarrow>
          if truthy (vehiclegraphic current) \<and> \<not> forceUpdate
          then (Inr False, rows,
                [DbSelectSingle vehicleId,
                 Log '' Vehicle \"{}\" already has an image. Use forceUpdate=true to override.''
                   [S (vehicletype current)]])
          else (case db_update rm i of
                  Some e \<Rightarrow>
                    (Inl (StoreError e), rows,
                     [DbSelectSingle vehicleId, DbUpdate vehicleId imageUrl (clock rm i),
                      LogError ''Error updating vehicle {}:'' [I vehicleId, E (StoreError e)]])
                | None \<Rightarrow>
                    (Inr True, update_by_id rows vehicleId imageUrl (clock rm i),
                     [DbSelectSingle vehicleId, DbUpdate vehicleId imageUrl (clock rm i),
                      Log '' {} image for: {}''
                        [S (if truthy (vehiclegraphic current) then ''Updated'' else ''Added''),
                         S (vehicletype current)]])))"

text \<open>
  The two-argument \<open>updateVehicleImage\<close> of \<open>VehicleImageGenerator.js\<close>: no
  read, no flag; it returns the rows the update touched.
\<close>

definition updateVehicleImage_v1 ::
  "remote \<Rightarrow> nat \<Rightarrow> vehicle list \<Rightarrow> int \<Rightarrow> string \<Rightarrow> (err + vehicle list) \<times> vehicle list \<times> event list" where
  "updateVehicleImage_v1 rm i rows vehicleId imageUrl =
     (case db_update rm i of
        Some e \<Rightarrow>
          (Inl (StoreError e), rows,
           [DbUpdate vehicleId imageUrl (clock rm i),
            LogError '' Error updating vehicle {}:'' [I vehicleId, E (StoreError e)]])
      | None \<Rightarrow>
          (Inr (filter (\<lambda>r. id_col r = vehicleId)
                  (update_by_id rows vehicleId imageUrl (clock rm i))),
           update_by_id rows vehicleId imageUrl (clock rm i),
           [DbUpdate vehicleId imageUrl (clock rm i),
            Log '' Database updated for vehicle ID: {}'' [I vehicleId]]))"

text \<open>
  The two bulk reads, the same in both files. The argument \<open>failure\<close> is the
  \<open>error\<close> member of the reply at the call site.
\<close>

definition getVehiclesWithoutImages :: "string option \<Rightarrow> vehicle list \<Rightarrow> (err + vehicle list) \<times> event list" where
  "getVehiclesWithoutImages failure rows =
     (case failure of
        Some e \<Rightarrow>
          (Inl (StoreError e),
           [DbSelectMissing, LogError '' Error fetching vehicle:'' [E (StoreError e)]])
      | None \<Rightarrow> (Inr (filter (\<lambda>r. vehiclegraphic r = None) rows), [DbSelectMissing]))"

definition getAllVehicles :: "string option \<Rightarrow> vehicle list \<Rightarrow> (err + vehicle list) \<times> event list" where
  "getAllVehicles failure rows =
     (case failure of
        Some e \<Rightarrow>
          (Inl (StoreError e),
           [DbSelectAll, LogError ''Error fetching all vehicle:'' [E (StoreError e)]])
      | None \<Rightarrow> (Inr (sort_key id_col rows), [DbSelectAll]))"

section \<open>Orchestrator\<close>

text \<open>
  The body of the \<open>for\<close> loop of \<open>processVehicles\<close>, for the candidate
  \<open>vehicle = vehicles[i]\<close> of \<open>len = vehicles.length\<close>. The pacing timer is
  inside the \<open>try\<close>: an exception of either call jumps over it to the
  \<open>catch\<close>.
\<close>

definition processOne ::
  "remote \<Rightarrow> bool \<Rightarrow> nat \<Rightarrow> nat \<Rightarrow> vehicle \<Rightarrow> vehicle list \<Rightarrow> vehicle list \<times> event list" where
  "processOne rm onlyMissing len i vehicle rows =
     (case generateVehicleImage rm i (vehicletype vehicle) of
        (Inl e, evg) \<Rightarrow>
          (rows,
           [Log ''\<newline>[{}/{}] Processing: {}'' [N (i + 1), N len, S (vehicletype vehicle)]] @ evg @
           [LogError '' Failed to process {}:'' [S (vehicletype vehicle), E e]])
      | (Inr imageUrl, evg) \<Rightarrow>
          (case updateVehicleImage rm i rows (id_col vehicle) imageUrl (\<not> onlyMissing) of
             (Inl e, rows', evu) \<Rightarrow>
               (rows',
                [Log ''\<newline>[{}/{}] Processing: {}'' [N (i + 1), N len, S (vehicletype vehicle)]] @
                evg @ evu @
                [LogError '' Failed to process {}:'' [S (vehicletype vehicle), E e]])
           | (Inr wrote, rows', evu) \<Rightarrow>
               (rows',
                [Log ''\<newline>[{}/{}] Processing: {}'' [N (i + 1), N len, S (vehicletype vehicle)]] @
                evg @ evu @
                (if i < len - 1 then [Log '' Waiting 2 seconds...'' [], Delay 2000] else []))))"

fun processLoop ::
  "remote \<Rightarrow> bool \<Rightarrow> nat \<Rightarrow> nat \<Rightarrow> vehicle list \<Rightarrow> vehicle list \<Rightarrow> vehicle list \<times> event list" where
  "processLoop rm onlyMissing len i [] rows = (rows, [])"
| "processLoop rm onlyMissing len i (vehicle # rest) rows =
     (let (rows1, ev1) = processOne rm onlyMissing len i vehicle rows;
          (rows2, ev2) = processLoop rm onlyMissing len (Suc i) rest rows1
      in (rows2, ev1 @ ev2))"

text \<open>
  \<open>processVehicles(onlyMissing)\<close>. It has no \<open>try\<close> of its own: an exception
  of the bulk read leaves it (\<open>Inl\<close>).
\<close>

definition processVehicles ::
  "environ \<Rightarrow> remote \<Rightarrow> bool \<Rightarrow> vehicle list \<Rightarrow> (err + unit) \<times> vehicle list \<times> event list" where
  "processVehicles penv rm onlyMissing rows =
     (case testConnections penv rm of
        (False, evt) \<Rightarrow> (Inr (), rows, evt)
      | (True, evt) \<Rightarrow>
          (case (if onlyMissing then getVehiclesWithoutImages (db_select rm) rows
                 else getAllVehicles (db_select rm) rows) of
             (Inl e, evf) \<Rightarrow> (Inl e, rows, evt @ evf)
           | (Inr vehicles, evf) \<Rightarrow>
               if length vehicles = 0
               then (Inr (), rows,
                     evt @ evf @
                     [Log '' Found {} vehicles {}''
                        [N (length vehicles),
                         S (if onlyMissing then ''without images'' else ''for regeneration'')],
                      Log (if onlyMissing then '' All vehicles already have images!''
                           else '' No vehicles found'') []])
               else (let (rows', evl) = processLoop rm onlyMissing (length vehicles) 0 vehicles rows
                     in (Inr (), rows',
                         evt @ evf @
                         [Log '' Found {} vehicles {}''
                            [N (length vehicles),
                             S (if onlyMissing then ''without images'' else ''for regeneration'')]] @
                         evl @
                         [Log ''\<newline> All {}!''
                            [S (if onlyMissing then ''missing images processed''
                                else ''images regenerated'')]]))))"

definition processOnlyMissingImages ::
  "environ \<Rightarrow> remote \<Rightarrow> vehicle list \<Rightarrow> (err + unit) \<times> vehicle list \<times> event list" where
  "processOnlyMissingImages penv rm rows = processVehicles penv rm True rows"

definition regenerateAllImages ::
  "environ \<Rightarrow> remote \<Rightarrow> vehicle list \<Rightarrow> (err + unit) \<times> vehicle list \<times> event list" where
  "regenerateAllImages penv rm rows = processVehicles penv rm False rows"

text \<open>\<open>displayResults\<close>, the same in both files: a read and console lines.\<close>

definition resultLines :: "vehicle \<Rightarrow> event list" where
  "resultLines vehicle =
     [Log ''{}. {}'' [I (id_col vehicle), S (vehicletype vehicle)],
      Log ''   Image: {}'' [S (if truthy (vehiclegraphic vehicle) then ''Generated'' else ''Missing'')]] @
     (if truthy (vehiclegraphic vehicle)
      then [Log ''   URL: {}'' [S (the (vehiclegraphic vehicle))]]
      else []) @
     [Log [] []]"

definition displayResults :: "remote \<Rightarrow> vehicle list \<Rightarrow> event list" where
  "displayResults rm rows =
     (case getAllVehicles (db_select_display rm) rows of
        (Inl e, evf) \<Rightarrow> evf @ [LogError ''Error displaying results:'' [E e]]
      | (Inr allVehicles, evf) \<Rightarrow>
          evf @
          [Log ''\<newline> Final Results:'' [], Log ''====================================='' []] @
          concat (map resultLines allVehicles))"

text \<open>
  \<open>main\<close> of the variant with two run modes: the mode is chosen from a first
  read of the rows without an image.
\<close>

definition main :: "environ \<Rightarrow> remote \<Rightarrow> vehicle list \<Rightarrow> vehicle list \<times> event list" where
  "main penv rm rows =
     (case getVehiclesWithoutImages (db_select_first rm) rows of
        (Inl e, evf) \<Rightarrow>
          (rows,
           [Log ''Vehicle Image Generator Starting...'' [],
            Log ''=====================================\<newline>'' []] @ evf @
           [LogError ''Error in main process:'' [E e]])
      | (Inr vehiclesWithoutImages, evf) \<Rightarrow>
          (let (res, rows', evp) =
                 (if length vehiclesWithoutImages > 0
                  then processOnlyMissingImages penv rm rows
                  else (let (res, rows', ev) = regenerateAllImages penv rm rows
                        in (res, rows', Log ''All vehicles have images. Regenerating all...'' [] # ev)))
           in (rows',
               [Log ''Vehicle Image Generator Starting...'' [],
                Log ''=====================================\<newline>'' []] @ evf @ evp @
               (case res of
                  Inl e \<Rightarrow> [LogError ''Error in main process:'' [E e]]
                | Inr u \<Rightarrow> displayResults rm rows'))))"

text \<open>
  The loop of \<open>processAllVehicles\<close> in \<open>VehicleImageGenerator.js\<close>, and the
  method itself, whose \<open>try\<close> catches an exception of the bulk read.
\<close>

definition processOne_v1 ::
  "remote \<Rightarrow> nat \<Rightarrow> nat \<Rightarrow> vehicle \<Rightarrow> vehicle list \<Rightarrow> vehicle list \<times> event list" where
  "processOne_v1 rm len i vehicle rows =
     (case generateVehicleImage_v1 rm i (vehicletype vehicle) of
        (Inl e, evg) \<Rightarrow>
          (rows,
           [Log ''\<newline>[{}/{}] Processing: {}'' [N (i + 1), N len, S (vehicletype vehicle)]] @ evg @
           [LogError '' Failed to process {}:'' [S (vehicletype vehicle), E e]])
      | (Inr imageUrl, evg) \<Rightarrow>
          (case updateVehicleImage_v1 rm i rows (id_col vehicle) imageUrl of
             (Inl e, rows', evu) \<Rightarrow>
               (rows',
                [Log ''\<newline>[{}/{}] Processing: {}'' [N (i + 1), N len, S (vehicletype vehicle)]] @
                evg @ evu @
                [LogError '' Failed to process {}:'' [S (vehicletype vehicle), E e]])
           | (Inr touched, rows', evu) \<Rightarrow>
               (rows',
                [Log ''\<newline>[{}/{}] Processing: {}'' [N (i + 1), N len, S (vehicletype vehicle)]] @
                evg @ evu @
                [Log '' Successfully processed: {}'' [S (vehicletype vehicle)]] @
                (if i < len - 1
                 then [Log '' Waiting 2 seconds before next request...'' [], Delay 2000]
                 else []))))"

fun processLoop_v1 ::
  "remote \<Rightarrow> nat \<Rightarrow> nat \<Rightarrow> vehicle list \<Rightarrow> vehicle list \<Rightarrow> vehicle list \<times> event list" where
  "processLoop_v1 rm len i [] rows = (rows, [])"
| "processLoop_v1 rm len i (vehicle # rest) rows =
     (let (rows1, ev1) = processOne_v1 rm len i vehicle rows;
          (rows2, ev2) = processLoop_v1 rm len (Suc i) rest rows1
      in (rows2, ev1 @ ev2))"

definition processAllVehicles :: "environ \<Rightarrow> remote \<Rightarrow> vehicle list \<Rightarrow> vehicle list \<times> event list" where
  "processAllVehicles penv rm rows =
     (let (envOk, eve) = testEnvironmentVariables penv
      in if \<not> envOk
         then (rows,
               [Log '' Starting vehicle processing...'' []] @ eve @
               [LogError '' Environment variable check failed.'' []])
         else (let (dbOk, evd) = testConnection rm rows;
                   (openaiOk, evo) = testOpenAIConnection rm
               in if \<not> dbOk \<or> \<not> openaiOk
                  then (rows,
                        [Log '' Starting vehicle processing...'' []] @ eve @ evd @ evo @
                        [LogError '' Connection tests failed. Please check your .env file.'' []])
                  else (case getVehiclesWithoutImages (db_select rm) rows of
                          (Inl e, evf) \<Rightarrow>
                            (rows,
                             [Log '' Starting vehicle processing...'' []] @ eve @ evd @ evo @ evf @
                             [LogError ''Error in processAllVehicles:'' [E e]])
                        | (Inr vehicles, evf) \<Rightarrow>
                            if length vehicles = 0
                            then (rows,
                                  [Log '' Starting vehicle processing...'' []] @ eve @ evd @ evo @ evf @
                                  [Log '' Found {} vehicle to process'' [N (length vehicles)],
                                   Log '' All vehicle already have images!'' []])
                            else (let (rows', evl) = processLoop_v1 rm (length vehicles) 0 vehicles rows
                                  in (rows',
                                      [Log '' Starting vehicle processing...'' []] @ eve @ evd @ evo @ evf @
                                      [Log '' Found {} vehicle to process'' [N (length vehicles)]] @
                                      evl @
                                      [Log ''\<newline> All vehicle processed!'' []])))))"

definition main_v1 :: "environ \<Rightarrow> remote \<Rightarrow> vehicle list \<Rightarrow> vehicle list \<times> event list" where
  "main_v1 penv rm rows =
     (let (rows', evp) = processAllVehicles penv rm rows
      in (rows',
          [Log ''Vehicle Image Generator Starting...'' [],
           Log ''=====================================\<newline>'' []] @ evp @
          displayResults rm rows'))"

section \<open>Counting what a run does\<close>

fun is_generate :: "event \<Rightarrow> bool" where
  "is_generate (ImagesGenerate req) = True"
| "is_generate ev = False"

fun is_update :: "event \<Rightarrow> bool" where
  "is_update (DbUpdate vehicleId imageUrl now) = True"
| "is_update ev = False"

fun is_delay :: "event \<Rightarrow> bool" where
  "is_delay (Delay ms) = True"
| "is_delay ev = False"

definition provider_calls :: "event list \<Rightarrow> nat" where
  "provider_calls evs = length (filter is_generate evs)"

definition store_updates :: "event list \<Rightarrow> nat" where
  "store_updates evs = length (filter is_update evs)"

definition pacing_delays :: "event list \<Rightarrow> nat" where
  "pacing_delays evs = length (filter is_delay evs)"

section \<open>Example inputs\<close>

text \<open>
  A complete environment, a remote side on which every call succeeds, and the
  table of the scenario in the specification: a sedan without an image and a
  truck with one; a third row without an image for runs of two candidates.
\<close>

definition env_full :: environ where
  "env_full =
     [''SUPABASE_URL'' \<mapsto> ''https://db.example'', ''SUPABASE_ANON_KEY'' \<mapsto> ''anon'',
      ''OPENAI_API_KEY'' \<mapsto> ''sk'']"


definition remote_ok :: remote where
  "remote_ok =
     \<lparr>db_probe = None, models_list = None, db_select_first = None, db_select = None,
      db_select_display = None,
      images_generate = (\<lambda>i req. Inr [\<lparr>url = ''https://img.example/new.png''\<rparr>]),
      db_single = (\<lambda>i. None), db_update = (\<lambda>i. None),
      clock = (\<lambda>i. ''2024-01-01T00:00:00.000Z'')\<rparr>"

definition remote_first_call_fails :: remote where
  "remote_first_call_fails =
     remote_ok\<lparr>images_generate :=
       (\<lambda>i req. if i = 0 then Inl ''rate limit'' else Inr [\<lparr>url = ''https://img.example/new.png''\<rparr>])\<rparr>"

definition remote_probe_fails :: remote where
  "remote_probe_fails = remote_ok\<lparr>db_probe := Some ''unreachable''\<rparr>"

definition remote_provider_down :: remote where
  "remote_provider_down = remote_ok\<lparr>models_list := Some ''unreachable''\<rparr>"

definition remote_empty_reply :: remote where
  "remote_empty_reply = remote_ok\<lparr>images_generate := (\<lambda>i req. Inr [])\<rparr>"

definition sedan :: vehicle where
  "sedan = \<lparr>id_col = 1, vehicletype = ''sedan'', vehiclegraphic = None, updated_at = None\<rparr>"

definition truck :: vehicle where
  "truck = \<lparr>id_col = 2, vehicletype = ''truck'', vehiclegraphic = Some ''http://x/2.png'',
             updated_at = None\<rparr>"

definition coupe :: vehicle where
  "coupe = \<lparr>id_col = 3, vehicletype = ''coupe'', vehiclegraphic = None, updated_at = None\<rparr>"

section \<open>Counting lemmas\<close>

lemma provider_calls_append: "provider_calls (a @ b) = provider_calls a + provider_calls b"
  by (simp add: provider_calls_def)
lemma store_updates_append: "store_updates (a @ b) = store_updates a + store_updates b"
  by (simp add: store_updates_def)
lemma pacing_delays_append: "pacing_delays (a @ b) = pacing_delays a + pacing_delays b"
  by (simp add: pacing_delays_def)

lemma generate_counts:
  "provider_calls (snd (generateVehicleImage rm i t)) = 1"
  "store_updates (snd (generateVehicleImage rm i t)) = 0"
  "pacing_delays (snd (generateVehicleImage rm i t)) = 0"
  by (simp_all add: generateVehicleImage_def provider_calls_def store_updates_def pacing_delays_def Let_def
      split: sum.splits list.splits)

lemma generate_v1_counts:
  "provider_calls (snd (generateVehicleImage_v1 rm i t)) = 1"
  "store_updates (snd (generateVehicleImage_v1 rm i t)) = 0"
  "pacing_delays (snd (generateVehicleImage_v1 rm i t)) = 0"
  by (simp_all add: generateVehicleImage_v1_def provider_calls_def store_updates_def pacing_delays_def Let_def
      split: sum.splits list.splits)

lemma update_counts:
  "provider_calls (snd (snd (updateVehicleImage rm i rows k u f))) = 0"
  "store_updates (snd (snd (updateVehicleImage rm i rows k u f))) \<le> 1"
  "pacing_delays (snd (snd (updateVehicleImage rm i rows k u f))) = 0"
  by (simp_all add: updateVehicleImage_def provider_calls_def store_updates_def pacing_delays_def
      split: option.splits)

lemma update_v1_counts:
  "provider_calls (snd (snd (updateVehicleImage_v1 rm i rows k u))) = 0"
  "store_updates (snd (snd (updateVehicleImage_v1 rm i rows k u))) = 1"
  "pacing_delays (snd (snd (updateVehicleImage_v1 rm i rows k u))) = 0"
  by (simp_all add: updateVehicleImage_v1_def provider_calls_def store_updates_def pacing_delays_def
      split: option.splits)

lemma count_simps [simp]:
  "provider_calls [] = 0" "store_updates [] = 0" "pacing_delays [] = 0"
  "provider_calls (Log a b # evs) = provider_calls evs"
  "store_updates (Log a b # evs) = store_updates evs"
  "pacing_delays (Log a b # evs) = pacing_delays evs"
  "provider_calls (LogError a b # evs) = provider_calls evs"
  "store_updates (LogError a b # evs) = store_updates evs"
  "pacing_delays (LogError a b # evs) = pacing_delays evs"
  "provider_calls (Delay ms # evs) = provider_calls evs"
  "store_updates (Delay ms # evs) = store_updates evs"
  "pacing_delays (Delay ms # evs) = Suc (pacing_delays evs)"
  by (simp_all add: provider_calls_def store_updates_def pacing_delays_def)

lemma processOne_counts:
  "provider_calls (snd (processOne rm om n i v rows)) = 1 \<and>
   store_updates (snd (processOne rm om n i v rows)) \<le> 1 \<and>
   pacing_delays (snd (processOne rm om n i v rows)) \<le> (if i < n - 1 then 1 else 0)"
proof -
  obtain g evg where g: "generateVehicleImage rm i (vehicletype v) = (g, evg)"
    by (cases "generateVehicleImage rm i (vehicletype v)")
  have cg: "provider_calls evg = 1" "store_updates evg = 0" "pacing_delays evg = 0"
    using generate_counts[of rm i "vehicletype v"] g by simp_all
  show ?thesis
  proof (cases g)
    case (Inl e)
    then show ?thesis
      using g cg
      by (simp add: processOne_def provider_calls_append store_updates_append pacing_delays_append)
  next
    case (Inr u)
    obtain r rows' evu where u: "updateVehicleImage rm i rows (id_col v) u (\<not> om) = (r, rows', evu)"
      by (cases "updateVehicleImage rm i rows (id_col v) u (\<not> om)")
    have cu: "provider_calls evu = 0" "store_updates evu \<le> 1" "pacing_delays evu = 0"
      using update_counts[of rm i rows "id_col v" u "\<not> om"] u by simp_all
    show ?thesis
      using g cg Inr u cu
      by (cases r) (simp_all add: processOne_def provider_calls_append store_updates_append pacing_delays_append)
  qed
qed

lemma processOne_v1_counts:
  "provider_calls (snd (processOne_v1 rm n i v rows)) = 1 \<and>
   store_updates (snd (processOne_v1 rm n i v rows)) \<le> 1 \<and>
   pacing_delays (snd (processOne_v1 rm n i v rows)) \<le> (if i < n - 1 then 1 else 0)"
proof -
  obtain g evg where g: "generateVehicleImage_v1 rm i (vehicletype v) = (g, evg)"
    by (cases "generateVehicleImage_v1 rm i (vehicletype v)")
  have cg: "provider_calls evg = 1" "store_updates evg = 0" "pacing_delays evg = 0"
    using generate_v1_counts[of rm i "vehicletype v"] g by simp_all
  show ?thesis
  proof (cases g)
    case (Inl e)
    then show ?thesis
      using g cg
      by (simp add: processOne_v1_def provider_calls_append store_updates_append pacing_delays_append)
  next
    case (Inr u)
    obtain r rows' evu where u: "updateVehicleImage_v1 rm i rows (id_col v) u = (r, rows', evu)"
      by (cases "updateVehicleImage_v1 rm i rows (id_col v) u")
    have cu: "provider_calls evu = 0" "store_updates evu = 1" "pacing_delays evu = 0"
      using update_v1_counts[of rm i rows "id_col v" u] u by simp_all
    show ?thesis
      using g cg Inr u cu
      by (cases r) (simp_all add: processOne_v1_def provider_calls_append store_updates_append pacing_delays_append)
  qed
qed

lemma processLoop_counts:
  "provider_calls (snd (processLoop rm om n i vs rows)) = length vs \<and>
   store_updates (snd (processLoop rm om n i vs rows)) \<le> length vs \<and>
   pacing_delays (snd (processLoop rm om n i vs rows)) \<le> n - 1 - i"
proof (induction vs arbitrary: i rows)
  case Nil
  show ?case by simp
next
  case (Cons v vs)
  obtain rows1 ev1 where one: "processOne rm om n i v rows = (rows1, ev1)"
    by (cases "processOne rm om n i v rows")
  obtain rows2 ev2 where rest: "processLoop rm om n (Suc i) vs rows1 = (rows2, ev2)"
    by (cases "processLoop rm om n (Suc i) vs rows1")
  have c1: "provider_calls ev1 = 1" "store_updates ev1 \<le> 1"
    "pacing_delays ev1 \<le> (if i < n - 1 then 1 else 0)"
    using processOne_counts[of rm om n i v rows] one by simp_all
  have c2: "provider_calls ev2 = length vs" "store_updates ev2 \<le> length vs"
    "pacing_delays ev2 \<le> n - 1 - Suc i"
    using Cons.IH[of "Suc i" rows1] rest by simp_all
  have d: "pacing_delays ev1 + pacing_delays ev2 \<le> n - 1 - i"
    using c1(3) c2(3) by (cases "i < n - 1") simp_all
  show ?case
    using one rest c1 c2 d
    by (simp add: provider_calls_append store_updates_append pacing_delays_append)
qed

lemma processLoop_v1_counts:
  "provider_calls (snd (processLoop_v1 rm n i vs rows)) = length vs \<and>
   store_updates (snd (processLoop_v1 rm n i vs rows)) \<le> length vs \<and>
   pacing_delays (snd (processLoop_v1 rm n i vs rows)) \<le> n - 1 - i"
proof (induction vs arbitrary: i rows)
  case Nil
  show ?case by simp
next
  case (Cons v vs)
  obtain rows1 ev1 where one: "processOne_v1 rm n i v rows = (rows1, ev1)"
    by (cases "processOne_v1 rm n i v rows")
  obtain rows2 ev2 where rest: "processLoop_v1 rm n (Suc i) vs rows1 = (rows2, ev2)"
    by (cases "processLoop_v1 rm n (Suc i) vs rows1")
  have c1: "provider_calls ev1 = 1" "store_updates ev1 \<le> 1"
    "pacing_delays ev1 \<le> (if i < n - 1 then 1 else 0)"
    using processOne_v1_counts[of rm n i v rows] one by simp_all
  have c2: "provider_calls ev2 = length vs" "store_updates ev2 \<le> length vs"
    "pacing_delays ev2 \<le> n - 1 - Suc i"
    using Cons.IH[of "Suc i" rows1] rest by simp_all
  have d: "pacing_delays ev1 + pacing_delays ev2 \<le> n - 1 - i"
    using c1(3) c2(3) by (cases "i < n - 1") simp_all
  show ?case
    using one rest c1 c2 d
    by (simp add: provider_calls_append store_updates_append pacing_delays_append)
qed

section \<open>Lemmas on the configuration check\<close>

lemma checkVars_result:
  "checkVars penv vs b =
     (b \<and> (\<forall>v\<in>set vs. truthy (penv v)),
      map (\<lambda>v. if truthy (penv v) then Log ''   {}: Found'' [S v] else Log ''   {}: Missing'' [S v]) vs)"
  by (induction vs arbitrary: b) auto


section \<open>Configuration check\<close>



section \<open>Image provider client: properties\<close>

text \<open>
  C7. The prompt builder depends on the label alone: equal labels give equal
  prompts, the prompt is a fixed text around the label, it is defined for
  every label, and the request built from it is the same whatever the remote
  side and the loop position.
\<close>

theorem generateImagePrompt_pure:
  "(a = b \<longrightarrow> generateImagePrompt a = generateImagePrompt b \<and>
               generateImagePrompt_v1 a = generateImagePrompt_v1 b)
   \<and> (\<exists>pre post. \<forall>l. generateImagePrompt l = pre @ l @ post)
   \<and> (\<exists>pre post. \<forall>l. generateImagePrompt_v1 l = pre @ l @ post)
   \<and> filter is_generate (snd (generateVehicleImage rm i a)) =
       filter is_generate (snd (generateVehicleImage rm' i' a))
   \<and> filter is_generate (snd (generateVehicleImage_v1 rm i a)) =
       filter is_generate (snd (generateVehicleImage_v1 rm' i' a))"
proof -
  have p: "\<exists>pre post. \<forall>l. generateImagePrompt l = pre @ l @ post"
    unfolding generateImagePrompt_def by blast
  have q: "\<exists>pre post. \<forall>l. generateImagePrompt_v1 l = pre @ l @ post"
    unfolding generateImagePrompt_v1_def by blast
  have r: "filter is_generate (snd (generateVehicleImage rm i a)) =
       filter is_generate (snd (generateVehicleImage rm' i' a))"
    by (simp add: generateVehicleImage_def Let_def split: sum.splits list.splits)
  have s: "filter is_generate (snd (generateVehicleImage_v1 rm i a)) =
       filter is_generate (snd (generateVehicleImage_v1 rm' i' a))"
    by (simp add: generateVehicleImage_v1_def Let_def split: sum.splits list.splits)
  show ?thesis using p q r s by blast
qed

theorem generateImagePrompt_pure_witness:
  "generateImagePrompt (vehicletype sedan) = generateImagePrompt ''sedan''
   \<and> generateImagePrompt_v1 (vehicletype sedan) = generateImagePrompt_v1 ''sedan''
   \<and> filter is_generate (snd (generateVehicleImage remote_ok 0 (vehicletype sedan))) =
       filter is_generate (snd (generateVehicleImage remote_first_call_fails 1 (vehicletype sedan)))"
proof -
  have eq: "vehicletype sedan = ''sedan''" by (simp add: sedan_def)
  note t = generateImagePrompt_pure[of "vehicletype sedan" "''sedan''" remote_ok 0 remote_first_call_fails 1]
  show ?thesis using t eq by blast
qed

text \<open>
  C8. \<open>generateVehicleImage\<close> sends one request, with model \<open>dall-e-3\<close>, size
  \<open>1024x1024\<close>, quality \<open>hd\<close>, style \<open>vivid\<close> and \<open>n = 1\<close>, and an error of the
  provider comes back to the caller as it was thrown, with no second request.
\<close>

theorem generateVehicleImage_one_fixed_request:
  "filter is_generate (snd (generateVehicleImage rm i vtype)) =
     [ImagesGenerate \<lparr>req_model = ''dall-e-3'', req_prompt = generateImagePrompt vtype,
        req_size = ''1024x1024'', req_quality = ''hd'', req_style = ''vivid'', req_n = 1\<rparr>]
   \<and> (\<forall>e. images_generate rm i
         \<lparr>req_model = ''dall-e-3'', req_prompt = generateImagePrompt vtype, req_size = ''1024x1024'',
          req_quality = ''hd'', req_style = ''vivid'', req_n = 1\<rparr> = Inl e \<longrightarrow>
        fst (generateVehicleImage rm i vtype) = Inl (ProviderError e))
   \<and> filter is_generate (snd (generateVehicleImage_v1 rm i vtype)) =
     [ImagesGenerate \<lparr>req_model = ''dall-e-3'', req_prompt = generateImagePrompt_v1 vtype,
        req_size = ''1024x1024'', req_quality = ''hd'', req_style = ''vivid'', req_n = 1\<rparr>]
   \<and> (\<forall>e. images_generate rm i
         \<lparr>req_model = ''dall-e-3'', req_prompt = generateImagePrompt_v1 vtype, req_size = ''1024x1024'',
          req_quality = ''hd'', req_style = ''vivid'', req_n = 1\<rparr> = Inl e \<longrightarrow>
        fst (generateVehicleImage_v1 rm i vtype) = Inl (ProviderError e))"
  by (simp add: generateVehicleImage_def generateVehicleImage_v1_def Let_def split: sum.splits list.splits)

theorem generateVehicleImage_one_fixed_request_witness:
  "fst (generateVehicleImage remote_first_call_fails 0 ''sedan'') = Inl (ProviderError ''rate limit'')
   \<and> fst (generateVehicleImage_v1 remote_first_call_fails 0 ''sedan'') = Inl (ProviderError ''rate limit'')
   \<and> provider_calls (snd (generateVehicleImage remote_first_call_fails 0 ''sedan'')) = 1
   \<and> provider_calls (snd (generateVehicleImage_v1 remote_first_call_fails 0 ''sedan'')) = 1"
  using generateVehicleImage_one_fixed_request[of remote_first_call_fails 0 "''sedan''"]
  by (simp add: remote_first_call_fails_def remote_ok_def provider_calls_def)

text \<open>
  C10. \<open>generateVehicleImage\<close> returns the \<open>url\<close> of the first element of the
  reply's \<open>data\<close> array. There is no guard: it yields a URL exactly when the
  array is non-empty, and on an empty array the read of element 0 fails with a
  \<open>TypeError\<close>.
\<close>

theorem generateVehicleImage_reads_first_element:
  "(images_generate rm i
      \<lparr>req_model = ''dall-e-3'', req_prompt = generateImagePrompt vtype, req_size = ''1024x1024'',
       req_quality = ''hd'', req_style = ''vivid'', req_n = 1\<rparr> = Inr dat \<longrightarrow>
      (dat \<noteq> [] \<longrightarrow> fst (generateVehicleImage rm i vtype) = Inr (url (hd dat))) \<and>
      (dat = [] \<longrightarrow> fst (generateVehicleImage rm i vtype) = Inl TypeError))
   \<and> (images_generate rm i
      \<lparr>req_model = ''dall-e-3'', req_prompt = generateImagePrompt_v1 vtype, req_size = ''1024x1024'',
       req_quality = ''hd'', req_style = ''vivid'', req_n = 1\<rparr> = Inr dat \<longrightarrow>
      (dat \<noteq> [] \<longrightarrow> fst (generateVehicleImage_v1 rm i vtype) = Inr (url (hd dat))) \<and>
      (dat = [] \<longrightarrow> fst (generateVehicleImage_v1 rm i vtype) = Inl TypeError))"
  by (cases dat) (simp_all add: generateVehicleImage_def generateVehicleImage_v1_def)

theorem generateVehicleImage_reads_first_element_witness:
  "fst (generateVehicleImage remote_empty_reply 0 ''sedan'') = Inl TypeError
   \<and> fst (generateVehicleImage_v1 remote_empty_reply 0 ''sedan'') = Inl TypeError
   \<and> fst (generateVehicleImage remote_ok 0 ''sedan'') = Inr ''https://img.example/new.png''
   \<and> fst (generateVehicleImage_v1 remote_ok 0 ''sedan'') = Inr ''https://img.example/new.png''"
  using generateVehicleImage_reads_first_element[of remote_empty_reply 0 "''sedan''" "[]"]
    generateVehicleImage_reads_first_element[of remote_ok 0 "''sedan''" "[\<lparr>url = ''https://img.example/new.png''\<rparr>]"]
  by (simp add: remote_empty_reply_def remote_ok_def)

section \<open>Record store client: properties\<close>

text \<open>
  The two-argument \<open>updateVehicleImage\<close> has no check: it writes whenever the
  request succeeds, and for an unknown id it returns no row.
\<close>

lemma updateVehicleImage_v1_unknown_id:
  assumes "vehicleId \<notin> id_col ` set rows" and "db_update rm i = None"
  shows "fst (updateVehicleImage_v1 rm i rows vehicleId imageUrl) = Inr [] \<and>
         fst (snd (updateVehicleImage_v1 rm i rows vehicleId imageUrl)) = rows"
proof -
  have none: "\<forall>r\<in>set rows. id_col r \<noteq> vehicleId"
    using assms(1) by (metis imageI)
  then have same: "update_by_id rows vehicleId imageUrl (clock rm i) = rows"
    by (simp add: update_by_id_def map_idI)
  have "filter (\<lambda>r. id_col r = vehicleId) rows = []"
    using none by (simp add: filter_empty_conv)
  then show ?thesis
    using assms(2) same by (simp add: updateVehicleImage_v1_def)
qed

lemma updateVehicleImage_v1_overwrites:
  assumes "db_update rm i = None"
  shows "fst (snd (updateVehicleImage_v1 rm i rows vehicleId imageUrl)) =
           update_by_id rows vehicleId imageUrl (clock rm i)"
  using assms by (simp add: updateVehicleImage_v1_def)

text \<open>
  The three-argument \<open>updateVehicleImage\<close> reads the row first: for an id that
  no row carries it throws the not-found error, whatever the url, the flag and
  the answers of the remote side, leaves the table as it was and sends no
  update.
\<close>

lemma updateVehicleImage_unknown_id:
  "vehicleId \<notin> id_col ` set rows \<Longrightarrow>
     fst (updateVehicleImage rm i rows vehicleId imageUrl forceUpdate) = Inl (NotFoundError vehicleId)
     \<and> fst (snd (updateVehicleImage rm i rows vehicleId imageUrl forceUpdate)) = rows
     \<and> store_updates (snd (snd (updateVehicleImage rm i rows vehicleId imageUrl forceUpdate))) = 0"
proof -
  assume a: "vehicleId \<notin> id_col ` set rows"
  have "filter (\<lambda>r. id_col r = vehicleId) rows = []"
    using a by (auto simp add: filter_empty_conv)
  then have "select_single (db_single rm i) rows vehicleId = None"
    by (simp add: select_single_def split: option.splits)
  then show ?thesis
    by (simp add: updateVehicleImage_def store_updates_def)
qed

text \<open>
  The two-argument one never throws it: its only error is the one the update
  request reports. For an unknown id the table stays as it was in both.
\<close>

lemma updateVehicleImage_v1_never_not_found:
  "fst (updateVehicleImage_v1 rm i rows vehicleId imageUrl) \<noteq> Inl (NotFoundError k)"
  by (cases "db_update rm i") (simp_all add: updateVehicleImage_v1_def)

lemma updateVehicleImage_v1_unknown_id_table:
  assumes "vehicleId \<notin> id_col ` set rows"
  shows "fst (snd (updateVehicleImage_v1 rm i rows vehicleId imageUrl)) = rows"
proof -
  have "\<forall>r\<in>set rows. id_col r \<noteq> vehicleId"
    using assms by (metis imageI)
  then have "update_by_id rows vehicleId imageUrl (clock rm i) = rows"
    by (simp add: update_by_id_def map_idI)
  then show ?thesis
    by (cases "db_update rm i") (simp_all add: updateVehicleImage_v1_def)
qed

text \<open>
  C3. For an id that no row carries, the update operation must report the
  not-found error and leave the table unchanged. The three-argument
  \<open>updateVehicleImage\<close> does (\<open>updateVehicleImage_unknown_id\<close>). The two-argument
  \<open>updateVehicleImage\<close> of \<open>VehicleImageGenerator.js\<close> has no read: on the table
  of ids 1 and 2, for the id 7 and a remote side that answers every request,
  it sends the update, prints that the table was updated and returns the
  empty list of rows, with no error. The table is unchanged in both.
\<close>

theorem updateVehicleImage_v1_unknown_id_reports_success:
  "(7::int) \<notin> id_col ` set [sedan, truck]
   \<and> updateVehicleImage_v1 remote_ok 0 [sedan, truck] 7 ''https://img.example/new.png'' =
       (Inr [], [sedan, truck],
        [DbUpdate 7 ''https://img.example/new.png'' ''2024-01-01T00:00:00.000Z'',
         Log '' Database updated for vehicle ID: {}'' [I 7]])
   \<and> fst (updateVehicleImage remote_ok 0 [sedan, truck] 7 ''https://img.example/new.png'' False) =
       Inl (NotFoundError 7)
   \<and> fst (updateVehicleImage remote_ok 0 [sedan, truck] 7 ''https://img.example/new.png'' True) =
       Inl (NotFoundError 7)"
proof -
  have a: "(7::int) \<notin> id_col ` set [sedan, truck]"
    by (simp add: sedan_def truck_def)
  have r: "db_update remote_ok 0 = None" "clock remote_ok 0 = ''2024-01-01T00:00:00.000Z''"
    by (simp_all add: remote_ok_def)
  have v1: "updateVehicleImage_v1 remote_ok 0 [sedan, truck] 7 ''https://img.example/new.png'' =
       (Inr [], [sedan, truck],
        [DbUpdate 7 ''https://img.example/new.png'' ''2024-01-01T00:00:00.000Z'',
         Log '' Database updated for vehicle ID: {}'' [I 7]])"
    using r by (simp add: updateVehicleImage_v1_def update_by_id_def sedan_def truck_def)
  show ?thesis
    using a v1
      updateVehicleImage_unknown_id[OF a, of remote_ok 0 "''https://img.example/new.png''" False]
      updateVehicleImage_unknown_id[OF a, of remote_ok 0 "''https://img.example/new.png''" True]
    by simp
qed

theorem updateVehicleImage_v1_unknown_id_reports_success_witness:
  "fst (updateVehicleImage_v1 remote_ok 0 [sedan, truck] 7 ''https://img.example/new.png'')
     \<noteq> Inl (NotFoundError 7)
   \<and> fst (snd (updateVehicleImage_v1 remote_ok 0 [sedan, truck] 7 ''https://img.example/new.png''))
     = [sedan, truck]
   \<and> store_updates (snd (snd (updateVehicleImage_v1 remote_ok 0 [sedan, truck] 7
        ''https://img.example/new.png''))) = 1"
  using updateVehicleImage_v1_unknown_id_reports_success by (simp add: store_updates_def)

section \<open>The table after a run\<close>

lemma update_by_id_length: "length (update_by_id rows k u t) = length rows"
  by (simp add: update_by_id_def)

lemma update_by_id_ids: "map id_col (update_by_id rows k u t) = map id_col rows"
  by (simp add: update_by_id_def)

lemma update_by_id_types: "map vehicletype (update_by_id rows k u t) = map vehicletype rows"
  by (simp add: update_by_id_def)

lemma update_by_id_nth:
  "j < length rows \<Longrightarrow>
     update_by_id rows k u t ! j =
       (if id_col (rows ! j) = k
        then (rows ! j)\<lparr>vehiclegraphic := Some u, updated_at := Some t\<rparr>
        else rows ! j)"
  by (simp add: update_by_id_def)

lemma select_single_Some:
  "select_single failure rows k = Some cur \<Longrightarrow> failure = None \<and> filter (\<lambda>r. id_col r = k) rows = [cur]"
  by (auto simp add: select_single_def split: option.splits list.splits)

lemma select_single_unique:
  "filter (\<lambda>r. id_col r = k) rows = [cur] \<Longrightarrow> select_single None rows k = Some cur"
  by (simp add: select_single_def)

lemma updateVehicleImage_rows:
  "fst (snd (updateVehicleImage rm i rows k u f)) = rows \<or>
   (fst (snd (updateVehicleImage rm i rows k u f)) = update_by_id rows k u (clock rm i) \<and>
    (\<exists>cur. filter (\<lambda>r. id_col r = k) rows = [cur] \<and> (\<not> truthy (vehiclegraphic cur) \<or> f)))"
proof (cases "select_single (db_single rm i) rows k")
  case None
  then show ?thesis by (simp add: updateVehicleImage_def)
next
  case (Some cur)
  then have "filter (\<lambda>r. id_col r = k) rows = [cur]"
    using select_single_Some by blast
  then show ?thesis
    using Some by (auto simp add: updateVehicleImage_def split: option.splits)
qed

lemma processOne_rows:
  "fst (processOne rm om n i v rows) = rows \<or>
   (\<exists>u. fst (processOne rm om n i v rows) = update_by_id rows (id_col v) u (clock rm i) \<and>
    (\<exists>cur. filter (\<lambda>r. id_col r = id_col v) rows = [cur] \<and> (\<not> truthy (vehiclegraphic cur) \<or> \<not> om)))"
proof -
  obtain g evg where g: "generateVehicleImage rm i (vehicletype v) = (g, evg)"
    by (cases "generateVehicleImage rm i (vehicletype v)")
  show ?thesis
  proof (cases g)
    case (Inl e)
    then show ?thesis using g by (simp add: processOne_def)
  next
    case (Inr u)
    obtain r rows' evu where up: "updateVehicleImage rm i rows (id_col v) u (\<not> om) = (r, rows', evu)"
      by (cases "updateVehicleImage rm i rows (id_col v) u (\<not> om)")
    have one: "fst (processOne rm om n i v rows) = rows'"
      using g Inr up by (cases r) (simp_all add: processOne_def)
    show ?thesis
      using updateVehicleImage_rows[of rm i rows "id_col v" u "\<not> om"] up one by auto
  qed
qed


lemma processOne_shape:
  "length (fst (processOne rm om n i v rows)) = length rows \<and>
   map id_col (fst (processOne rm om n i v rows)) = map id_col rows"
  using processOne_rows[of rm om n i v rows]
  by (auto simp add: update_by_id_length update_by_id_ids)


lemma processOne_frame:
  "j < length rows \<Longrightarrow> id_col (rows ! j) \<noteq> id_col v \<Longrightarrow>
     fst (processOne rm om n i v rows) ! j = rows ! j"
  using processOne_rows[of rm om n i v rows]
  by (auto simp add: update_by_id_nth)



lemma processLoop_shape:
  "length (fst (processLoop rm om n i vs rows)) = length rows \<and>
   map id_col (fst (processLoop rm om n i vs rows)) = map id_col rows"
proof (induction vs arbitrary: i rows)
  case Nil
  show ?case by simp
next
  case (Cons v vs)
  obtain rows1 ev1 where one: "processOne rm om n i v rows = (rows1, ev1)"
    by (cases "processOne rm om n i v rows")
  obtain rows2 ev2 where rest: "processLoop rm om n (Suc i) vs rows1 = (rows2, ev2)"
    by (cases "processLoop rm om n (Suc i) vs rows1")
  show ?case
    using one rest processOne_shape[of rm om n i v rows] Cons.IH[of "Suc i" rows1] by simp
qed


lemma processLoop_frame:
  "j < length rows \<Longrightarrow> id_col (rows ! j) \<notin> id_col ` set vs \<Longrightarrow>
     fst (processLoop rm om n i vs rows) ! j = rows ! j"
proof (induction vs arbitrary: i rows)
  case Nil
  show ?case by simp
next
  case (Cons v vs)
  obtain rows1 ev1 where one: "processOne rm om n i v rows = (rows1, ev1)"
    by (cases "processOne rm om n i v rows")
  obtain rows2 ev2 where rest: "processLoop rm om n (Suc i) vs rows1 = (rows2, ev2)"
    by (cases "processLoop rm om n (Suc i) vs rows1")
  have ne: "id_col (rows ! j) \<noteq> id_col v" and out: "id_col (rows ! j) \<notin> id_col ` set vs"
    using Cons.prems(2) by auto
  have same: "rows1 ! j = rows ! j"
    using processOne_frame[OF Cons.prems(1) ne, of rm om n i] one by simp
  have len: "length rows1 = length rows"
    using processOne_shape[of rm om n i v rows] one by simp
  have "fst (processLoop rm om n (Suc i) vs rows1) ! j = rows1 ! j"
    using Cons.IH[of rows1 "Suc i"] Cons.prems(1) len same out by simp
  then show ?case using one rest same by simp
qed



text \<open>What the two runs leave in the table: the table itself, or what the loop leaves.\<close>

lemma processVehicles_rows:
  "fst (snd (processVehicles penv rm om rows)) = rows \<or>
   fst (snd (processVehicles penv rm om rows)) =
     fst (processLoop rm om
            (length (if om then filter (\<lambda>r. vehiclegraphic r = None) rows else sort_key id_col rows)) 0
            (if om then filter (\<lambda>r. vehiclegraphic r = None) rows else sort_key id_col rows) rows)"
proof (cases "fst (testConnections penv rm)")
  case False
  then show ?thesis
    by (cases "testConnections penv rm") (simp add: processVehicles_def)
next
  case True
  then obtain evt where t: "testConnections penv rm = (True, evt)"
    by (cases "testConnections penv rm") simp
  show ?thesis
  proof (cases "db_select rm")
    case (Some e)
    then show ?thesis
      using t by (simp add: processVehicles_def getVehiclesWithoutImages_def getAllVehicles_def)
  next
    case None
    show ?thesis
    proof (cases om)
      case True
      obtain rows' evl where l: "processLoop rm True (length (filter (\<lambda>r. vehiclegraphic r = None) rows)) 0
            (filter (\<lambda>r. vehiclegraphic r = None) rows) rows = (rows', evl)"
        by (cases "processLoop rm True (length (filter (\<lambda>r. vehiclegraphic r = None) rows)) 0
            (filter (\<lambda>r. vehiclegraphic r = None) rows) rows")
      show ?thesis
        using t None True l by (simp add: processVehicles_def getVehiclesWithoutImages_def)
    next
      case False
      obtain rows' evl where l: "processLoop rm False (length (sort_key id_col rows)) 0
            (sort_key id_col rows) rows = (rows', evl)"
        by (cases "processLoop rm False (length (sort_key id_col rows)) 0
            (sort_key id_col rows) rows")
      show ?thesis
        using t None False l by (simp add: processVehicles_def getAllVehicles_def)
    qed
  qed
qed


lemma distinct_ids_not_candidate:
  assumes d: "distinct (map id_col rows)" and j: "j < length rows"
    and g: "vehiclegraphic (rows ! j) \<noteq> None"
  shows "id_col (rows ! j) \<notin> id_col ` set (filter (\<lambda>r. vehiclegraphic r = None) rows)"
proof
  assume "id_col (rows ! j) \<in> id_col ` set (filter (\<lambda>r. vehiclegraphic r = None) rows)"
  then obtain r where r: "r \<in> set rows" "vehiclegraphic r = None" "id_col r = id_col (rows ! j)"
    by auto
  have "rows ! j \<in> set rows" using j by simp
  then have "r = rows ! j"
    using d r(1) r(3) by (metis distinct_map inj_on_def)
  then show False using r(2) g by simp
qed





lemma incremental_keeps_present:
  assumes d: "distinct (map id_col rows)" and j: "j < length rows"
    and g: "vehiclegraphic (rows ! j) \<noteq> None"
  shows "fst (snd (processVehicles penv rm True rows)) ! j = rows ! j"
  using processVehicles_rows[of penv rm True rows]
    processLoop_frame[OF j distinct_ids_not_candidate[OF d j g], of rm True]
  by auto


lemma processVehicles_length: "length (fst (snd (processVehicles penv rm om rows))) = length rows"
  using processVehicles_rows[of penv rm om rows] processLoop_shape[of rm om]
  by auto


lemma count_simps_requests [simp]:
  "provider_calls (DbProbe # evs) = provider_calls evs"
  "store_updates (DbProbe # evs) = store_updates evs"
  "pacing_delays (DbProbe # evs) = pacing_delays evs"
  "provider_calls (DbSelectMissing # evs) = provider_calls evs"
  "store_updates (DbSelectMissing # evs) = store_updates evs"
  "pacing_delays (DbSelectMissing # evs) = pacing_delays evs"
  "provider_calls (DbSelectAll # evs) = provider_calls evs"
  "store_updates (DbSelectAll # evs) = store_updates evs"
  "pacing_delays (DbSelectAll # evs) = pacing_delays evs"
  "provider_calls (DbSelectSingle k # evs) = provider_calls evs"
  "store_updates (DbSelectSingle k # evs) = store_updates evs"
  "pacing_delays (DbSelectSingle k # evs) = pacing_delays evs"
  "provider_calls (ModelsList # evs) = provider_calls evs"
  "store_updates (ModelsList # evs) = store_updates evs"
  "pacing_delays (ModelsList # evs) = pacing_delays evs"
  "provider_calls (DbUpdate k u t # evs) = provider_calls evs"
  "store_updates (DbUpdate k u t # evs) = Suc (store_updates evs)"
  "pacing_delays (DbUpdate k u t # evs) = pacing_delays evs"
  "provider_calls (ImagesGenerate req # evs) = Suc (provider_calls evs)"
  "store_updates (ImagesGenerate req # evs) = store_updates evs"
  "pacing_delays (ImagesGenerate req # evs) = pacing_delays evs"
  by (simp_all add: provider_calls_def store_updates_def pacing_delays_def)

lemma testConnections_counts:
  "provider_calls (snd (testConnections penv rm)) = 0 \<and>
   store_updates (snd (testConnections penv rm)) = 0 \<and>
   pacing_delays (snd (testConnections penv rm)) = 0"
  by (simp add: testConnections_def split: option.splits)

lemma checkVars_counts:
  "provider_calls (snd (checkVars penv vs b)) = 0 \<and>
   store_updates (snd (checkVars penv vs b)) = 0 \<and>
   pacing_delays (snd (checkVars penv vs b)) = 0"
  by (induction vs arbitrary: b) (simp_all add: checkVars_result)

lemma testEnvironmentVariables_counts:
  "provider_calls (snd (testEnvironmentVariables penv)) = 0 \<and>
   store_updates (snd (testEnvironmentVariables penv)) = 0 \<and>
   pacing_delays (snd (testEnvironmentVariables penv)) = 0"
proof -
  obtain b ev where c: "checkVars penv requiredVars True = (b, ev)"
    by (cases "checkVars penv requiredVars True")
  show ?thesis
    using c checkVars_counts[of penv requiredVars True]
    by (simp add: testEnvironmentVariables_def provider_calls_append store_updates_append
        pacing_delays_append)
qed

lemma testConnection_counts:
  "provider_calls (snd (testConnection rm rows)) = 0 \<and>
   store_updates (snd (testConnection rm rows)) = 0 \<and>
   pacing_delays (snd (testConnection rm rows)) = 0"
  by (simp add: testConnection_def split: option.splits)

lemma testOpenAIConnection_counts:
  "provider_calls (snd (testOpenAIConnection rm)) = 0 \<and>
   store_updates (snd (testOpenAIConnection rm)) = 0 \<and>
   pacing_delays (snd (testOpenAIConnection rm)) = 0"
  by (simp add: testOpenAIConnection_def split: option.splits)

lemma resultLines_counts:
  "provider_calls (concat (map resultLines vs)) = 0 \<and>
   store_updates (concat (map resultLines vs)) = 0 \<and>
   pacing_delays (concat (map resultLines vs)) = 0"
  by (induction vs)
    (simp_all add: resultLines_def provider_calls_append store_updates_append pacing_delays_append)

lemma displayResults_counts:
  "provider_calls (displayResults rm rows) = 0 \<and>
   store_updates (displayResults rm rows) = 0 \<and>
   pacing_delays (displayResults rm rows) = 0"
  using resultLines_counts[of "sort_key id_col rows"]
  by (cases "db_select_display rm")
    (simp_all add: displayResults_def getAllVehicles_def provider_calls_append store_updates_append
      pacing_delays_append)

lemma fetch_counts:
  "provider_calls (snd (getVehiclesWithoutImages failure rows)) = 0 \<and>
   store_updates (snd (getVehiclesWithoutImages failure rows)) = 0 \<and>
   pacing_delays (snd (getVehiclesWithoutImages failure rows)) = 0 \<and>
   provider_calls (snd (getAllVehicles failure rows)) = 0 \<and>
   store_updates (snd (getAllVehicles failure rows)) = 0 \<and>
   pacing_delays (snd (getAllVehicles failure rows)) = 0"
  by (cases failure) (simp_all add: getVehiclesWithoutImages_def getAllVehicles_def)

lemma processVehicles_empty:
  assumes "fst (if onlyMissing then getVehiclesWithoutImages (db_select rm) rows
                else getAllVehicles (db_select rm) rows) = Inr []"
  shows "fst (processVehicles penv rm onlyMissing rows) = Inr () \<and>
     fst (snd (processVehicles penv rm onlyMissing rows)) = rows \<and>
     provider_calls (snd (snd (processVehicles penv rm onlyMissing rows))) = 0 \<and>
     store_updates (snd (snd (processVehicles penv rm onlyMissing rows))) = 0 \<and>
     (fst (testConnections penv rm) \<longrightarrow>
        Log (if onlyMissing then '' All vehicles already have images!'' else '' No vehicles found'') []
          \<in> set (snd (snd (processVehicles penv rm onlyMissing rows))))"
proof -
  obtain ok evt where t: "testConnections penv rm = (ok, evt)"
    by (cases "testConnections penv rm")
  have ct: "provider_calls evt = 0" "store_updates evt = 0"
    using testConnections_counts[of penv rm] t by simp_all
  obtain evf where f: "(if onlyMissing then getVehiclesWithoutImages (db_select rm) rows
                else getAllVehicles (db_select rm) rows) = (Inr [], evf)"
    using assms
    by (cases "if onlyMissing then getVehiclesWithoutImages (db_select rm) rows
                else getAllVehicles (db_select rm) rows") simp
  have cf: "provider_calls evf = 0" "store_updates evf = 0"
    using f fetch_counts[of "db_select rm" rows] by (cases onlyMissing; simp)+
  show ?thesis
    using t ct f cf
    by (cases ok) (simp_all add: processVehicles_def provider_calls_append store_updates_append)
qed

lemma processAllVehicles_empty:
  assumes "fst (getVehiclesWithoutImages (db_select rm) rows) = Inr []"
  shows "fst (processAllVehicles penv rm rows) = rows \<and>
     provider_calls (snd (processAllVehicles penv rm rows)) = 0 \<and>
     store_updates (snd (processAllVehicles penv rm rows)) = 0 \<and>
     (fst (testEnvironmentVariables penv) \<and> fst (testConnection rm rows) \<and>
      fst (testOpenAIConnection rm) \<longrightarrow>
        Log '' All vehicle already have images!'' [] \<in> set (snd (processAllVehicles penv rm rows)))"
proof -
  obtain envOk eve where e: "testEnvironmentVariables penv = (envOk, eve)"
    by (cases "testEnvironmentVariables penv")
  obtain dbOk evd where d: "testConnection rm rows = (dbOk, evd)"
    by (cases "testConnection rm rows")
  obtain openaiOk evo where b: "testOpenAIConnection rm = (openaiOk, evo)"
    by (cases "testOpenAIConnection rm")
  have c: "provider_calls eve = 0" "store_updates eve = 0"
    "provider_calls evd = 0" "store_updates evd = 0"
    "provider_calls evo = 0" "store_updates evo = 0"
    using testEnvironmentVariables_counts[of penv] testConnection_counts[of rm rows]
      testOpenAIConnection_counts[of rm] e d b by simp_all
  obtain evf where f: "getVehiclesWithoutImages (db_select rm) rows = (Inr [], evf)"
    using assms by (cases "getVehiclesWithoutImages (db_select rm) rows") simp
  have cf: "provider_calls evf = 0" "store_updates evf = 0"
    using f fetch_counts[of "db_select rm" rows] by simp_all
  show ?thesis
    using e d b c f cf
    by (simp add: processAllVehicles_def provider_calls_append store_updates_append)
qed

lemma main_empty_table:
  "fst (main penv rm []) = [] \<and> provider_calls (snd (main penv rm [])) = 0 \<and>
   store_updates (snd (main penv rm [])) = 0"
proof (cases "db_select_first rm")
  case (Some e)
  then show ?thesis by (simp add: main_def getVehiclesWithoutImages_def)
next
  case None
  have sel: "fst (if False then getVehiclesWithoutImages (db_select rm) []
                else getAllVehicles (db_select rm) []) = Inr [] \<or> db_select rm \<noteq> None"
    by (cases "db_select rm") (simp_all add: getAllVehicles_def)
  obtain res rows' evp where p: "processVehicles penv rm False [] = (res, rows', evp)"
    by (cases "processVehicles penv rm False []")
  have pr: "rows' = []"
    using processVehicles_length[of penv rm False "[]"] p by simp
  have pc: "provider_calls evp = 0 \<and> store_updates evp = 0"
  proof (cases "db_select rm")
    case None
    then have "fst (if False then getVehiclesWithoutImages (db_select rm) []
                else getAllVehicles (db_select rm) []) = Inr []"
      by (simp add: getAllVehicles_def)
    from processVehicles_empty[OF this, of penv] p show ?thesis by simp
  next
    case (Some e)
    obtain ok evt where t: "testConnections penv rm = (ok, evt)"
      by (cases "testConnections penv rm")
    have "provider_calls evt = 0" "store_updates evt = 0"
      using testConnections_counts[of penv rm] t by simp_all
    then show ?thesis
      using p t Some
      by (cases ok) (auto simp add: processVehicles_def getAllVehicles_def provider_calls_append
          store_updates_append)
  qed
  show ?thesis
    using None p pr pc displayResults_counts[of rm "[]"]
    by (cases res)
      (simp_all add: main_def getVehiclesWithoutImages_def regenerateAllImages_def
        provider_calls_append store_updates_append)
qed


section \<open>Incremental runs keep existing images\<close>



section \<open>Empty candidate list\<close>

text \<open>
  C5. A run whose candidate list is empty says so and ends normally: the
  table is unchanged, no image is requested and no update is sent. This holds
  for \<open>processVehicles\<close> in both modes, for \<open>processAllVehicles\<close>, and for
  \<open>main\<close> on an empty table.
\<close>

theorem empty_candidate_set_stops:
  "(fst (if onlyMissing then getVehiclesWithoutImages (db_select rm) rows
         else getAllVehicles (db_select rm) rows) = Inr [] \<longrightarrow>
     fst (processVehicles penv rm onlyMissing rows) = Inr () \<and>
     fst (snd (processVehicles penv rm onlyMissing rows)) = rows \<and>
     provider_calls (snd (snd (processVehicles penv rm onlyMissing rows))) = 0 \<and>
     store_updates (snd (snd (processVehicles penv rm onlyMissing rows))) = 0 \<and>
     (fst (testConnections penv rm) \<longrightarrow>
        Log (if onlyMissing then '' All vehicles already have images!'' else '' No vehicles found'') []
          \<in> set (snd (snd (processVehicles penv rm onlyMissing rows)))))
   \<and> (fst (getVehiclesWithoutImages (db_select rm) rows) = Inr [] \<longrightarrow>
     fst (processAllVehicles penv rm rows) = rows \<and>
     provider_calls (snd (processAllVehicles penv rm rows)) = 0 \<and>
     store_updates (snd (processAllVehicles penv rm rows)) = 0 \<and>
     (fst (testEnvironmentVariables penv) \<and> fst (testConnection rm rows) \<and>
      fst (testOpenAIConnection rm) \<longrightarrow>
        Log '' All vehicle already have images!'' [] \<in> set (snd (processAllVehicles penv rm rows))))
   \<and> fst (main penv rm []) = [] \<and> provider_calls (snd (main penv rm [])) = 0
   \<and> store_updates (snd (main penv rm [])) = 0"
  using processVehicles_empty[of onlyMissing rm rows penv] processAllVehicles_empty[of rm rows penv]
    main_empty_table[of penv rm]
  by blast

theorem empty_candidate_set_stops_witness:
  "fst (processVehicles env_full remote_ok True [truck]) = Inr ()
   \<and> fst (snd (processVehicles env_full remote_ok True [truck])) = [truck]
   \<and> provider_calls (snd (snd (processVehicles env_full remote_ok True [truck]))) = 0
   \<and> store_updates (snd (snd (processVehicles env_full remote_ok True [truck]))) = 0
   \<and> Log '' All vehicles already have images!'' []
        \<in> set (snd (snd (processVehicles env_full remote_ok True [truck])))
   \<and> fst (processAllVehicles env_full remote_ok [truck]) = [truck]
   \<and> provider_calls (snd (processAllVehicles env_full remote_ok [truck])) = 0
   \<and> Log '' All vehicle already have images!'' [] \<in> set (snd (processAllVehicles env_full remote_ok [truck]))"
proof -
  note t = empty_candidate_set_stops[of True remote_ok "[truck]" env_full]
  have s: "db_select remote_ok = None" "db_probe remote_ok = None" "models_list remote_ok = None"
    by (simp_all add: remote_ok_def)
  have m: "missingVars env_full = []"
    by (simp add: missingVars_def requiredVars_def env_full_def truthy_def)
  have h1: "fst (if True then getVehiclesWithoutImages (db_select remote_ok) [truck]
         else getAllVehicles (db_select remote_ok) [truck]) = Inr []"
    using s by (simp add: getVehiclesWithoutImages_def truck_def)
  have h2: "fst (getVehiclesWithoutImages (db_select remote_ok) [truck]) = Inr []"
    using s by (simp add: getVehiclesWithoutImages_def truck_def)
  have h3: "fst (testConnections env_full remote_ok)"
    using s m by (simp add: testConnections_def)
  have h4: "fst (testEnvironmentVariables env_full)"
    by (simp add: testEnvironmentVariables_def checkVars_result requiredVars_def env_full_def truthy_def)
  have h5: "fst (testConnection remote_ok [truck])" "fst (testOpenAIConnection remote_ok)"
    using s by (simp_all add: testConnection_def testOpenAIConnection_def)
  have a: "fst (processVehicles env_full remote_ok True [truck]) = Inr () \<and>
     fst (snd (processVehicles env_full remote_ok True [truck])) = [truck] \<and>
     provider_calls (snd (snd (processVehicles env_full remote_ok True [truck]))) = 0 \<and>
     store_updates (snd (snd (processVehicles env_full remote_ok True [truck]))) = 0 \<and>
     Log '' All vehicles already have images!'' []
          \<in> set (snd (snd (processVehicles env_full remote_ok True [truck])))"
    using t[THEN conjunct1] h1 h3 by simp
  have b: "fst (processAllVehicles env_full remote_ok [truck]) = [truck] \<and>
     provider_calls (snd (processAllVehicles env_full remote_ok [truck])) = 0 \<and>
     Log '' All vehicle already have images!'' [] \<in> set (snd (processAllVehicles env_full remote_ok [truck]))"
    using t[THEN conjunct2, THEN conjunct1] h2 h4 h5 by simp
  show ?thesis using a b by blast
qed

section \<open>Connectivity checks and call counts of a run\<close>

lemma env_full_complete: "missingVars env_full = []" "fst (testEnvironmentVariables env_full)"
  by (simp_all add: missingVars_def testEnvironmentVariables_def checkVars_result requiredVars_def
      env_full_def truthy_def)

lemma connectivity_failure_halts_v1:
  assumes "db_probe rm \<noteq> None \<or> models_list rm \<noteq> None"
  shows "fst (processAllVehicles penv rm rows) = rows \<and>
         provider_calls (snd (processAllVehicles penv rm rows)) = 0 \<and>
         store_updates (snd (processAllVehicles penv rm rows)) = 0"
proof -
  obtain envOk eve where e: "testEnvironmentVariables penv = (envOk, eve)"
    by (cases "testEnvironmentVariables penv")
  have ce: "provider_calls eve = 0" "store_updates eve = 0"
    using testEnvironmentVariables_counts[of penv] e by simp_all
  have f: "\<not> fst (testConnection rm rows) \<or> \<not> fst (testOpenAIConnection rm)"
    using assms by (auto simp add: testConnection_def testOpenAIConnection_def)
  obtain dbOk evd where d: "testConnection rm rows = (dbOk, evd)"
    by (cases "testConnection rm rows")
  obtain openaiOk evo where b: "testOpenAIConnection rm = (openaiOk, evo)"
    by (cases "testOpenAIConnection rm")
  have c: "provider_calls evd = 0" "store_updates evd = 0"
    "provider_calls evo = 0" "store_updates evo = 0"
    using testConnection_counts[of rm rows] testOpenAIConnection_counts[of rm] d b by simp_all
  show ?thesis
    using e ce d b c f
    by (simp add: processAllVehicles_def provider_calls_append store_updates_append)
qed

lemma connectivity_failure_reported_v1:
  assumes "fst (testEnvironmentVariables penv)"
  shows "(db_probe rm = Some e \<longrightarrow>
            LogError '' Database connection failed:'' [E (StoreError e)]
              \<in> set (snd (processAllVehicles penv rm rows))) \<and>
         (models_list rm = Some e \<longrightarrow>
            LogError '' OpenAI connection failed:'' [E (ProviderError e)]
              \<in> set (snd (processAllVehicles penv rm rows)))"
proof -
  obtain eve where e: "testEnvironmentVariables penv = (True, eve)"
    using assms by (cases "testEnvironmentVariables penv") simp
  show ?thesis
    using e
    by (cases "db_probe rm"; cases "models_list rm")
      (simp_all add: processAllVehicles_def testConnection_def testOpenAIConnection_def)
qed

lemma provider_check_failure_halts:
  assumes "models_list rm = Some e"
  shows "fst (snd (processVehicles penv rm onlyMissing rows)) = rows \<and>
         provider_calls (snd (snd (processVehicles penv rm onlyMissing rows))) = 0 \<and>
         store_updates (snd (snd (processVehicles penv rm onlyMissing rows))) = 0 \<and>
         (missingVars penv = [] \<longrightarrow>
            LogError '' Connection failed:'' [E (ProviderError e)]
              \<in> set (snd (snd (processVehicles penv rm onlyMissing rows))))"
  using assms by (simp add: processVehicles_def testConnections_def)

lemma processVehicles_counts_loop:
  assumes t: "fst (testConnections penv rm)" and f: "db_select rm = None"
    and vs: "vs = (if om then filter (\<lambda>r. vehiclegraphic r = None) rows else sort_key id_col rows)"
    and ne: "vs \<noteq> []" and n: "n = length vs"
  shows "provider_calls (snd (snd (processVehicles penv rm om rows))) =
           provider_calls (snd (processLoop rm om n 0 vs rows)) \<and>
         store_updates (snd (snd (processVehicles penv rm om rows))) =
           store_updates (snd (processLoop rm om n 0 vs rows)) \<and>
         pacing_delays (snd (snd (processVehicles penv rm om rows))) =
           pacing_delays (snd (processLoop rm om n 0 vs rows)) \<and>
         fst (snd (processVehicles penv rm om rows)) = fst (processLoop rm om n 0 vs rows)"
proof -
  obtain evt where tc: "testConnections penv rm = (True, evt)"
    using t by (cases "testConnections penv rm") simp
  have ct: "provider_calls evt = 0" "store_updates evt = 0" "pacing_delays evt = 0"
    using testConnections_counts[of penv rm] tc by simp_all
  obtain rows' evl where l: "processLoop rm om n 0 vs rows = (rows', evl)"
    by (cases "processLoop rm om n 0 vs rows")
  show ?thesis
  proof (cases om)
    case True
    then show ?thesis
      using tc ct f vs ne n l
      by (simp add: processVehicles_def getVehiclesWithoutImages_def provider_calls_append
          store_updates_append pacing_delays_append)
  next
    case False
    then show ?thesis
      using tc ct f vs ne n l
      by (auto simp add: processVehicles_def getAllVehicles_def provider_calls_append
          store_updates_append pacing_delays_append)
  qed
qed

lemma processAllVehicles_counts_loop:
  assumes e: "fst (testEnvironmentVariables penv)" and p: "db_probe rm = None"
    and m: "models_list rm = None" and f: "db_select rm = None"
    and vs: "vs = filter (\<lambda>r. vehiclegraphic r = None) rows"
    and ne: "vs \<noteq> []" and n: "n = length vs"
  shows "provider_calls (snd (processAllVehicles penv rm rows)) =
           provider_calls (snd (processLoop_v1 rm n 0 vs rows)) \<and>
         store_updates (snd (processAllVehicles penv rm rows)) =
           store_updates (snd (processLoop_v1 rm n 0 vs rows)) \<and>
         pacing_delays (snd (processAllVehicles penv rm rows)) =
           pacing_delays (snd (processLoop_v1 rm n 0 vs rows)) \<and>
         fst (processAllVehicles penv rm rows) = fst (processLoop_v1 rm n 0 vs rows)"
proof -
  obtain eve where ev: "testEnvironmentVariables penv = (True, eve)"
    using e by (cases "testEnvironmentVariables penv") simp
  have ce: "provider_calls eve = 0" "store_updates eve = 0" "pacing_delays eve = 0"
    using testEnvironmentVariables_counts[of penv] ev by simp_all
  obtain rows' evl where l: "processLoop_v1 rm n 0 vs rows = (rows', evl)"
    by (cases "processLoop_v1 rm n 0 vs rows")
  show ?thesis
    using ev ce p m f vs ne n l
    by (simp add: processAllVehicles_def testConnection_def testOpenAIConnection_def
        getVehiclesWithoutImages_def provider_calls_append store_updates_append pacing_delays_append)
qed

lemma processVehicles_run_counts:
  assumes "fst (testConnections penv rm)" and "db_select rm = None"
    and "vs = (if om then filter (\<lambda>r. vehiclegraphic r = None) rows else sort_key id_col rows)"
    and "vs \<noteq> []"
  shows "provider_calls (snd (snd (processVehicles penv rm om rows))) = length vs \<and>
         store_updates (snd (snd (processVehicles penv rm om rows))) \<le> length vs \<and>
         pacing_delays (snd (snd (processVehicles penv rm om rows))) \<le> length vs - 1"
  using processVehicles_counts_loop[OF assms, of "length vs"]
    processLoop_counts[of rm om "length vs" 0 vs rows]
  by simp

lemma processAllVehicles_run_counts:
  assumes "fst (testEnvironmentVariables penv)" and "db_probe rm = None"
    and "models_list rm = None" and "db_select rm = None"
    and "vs = filter (\<lambda>r. vehiclegraphic r = None) rows" and "vs \<noteq> []"
  shows "provider_calls (snd (processAllVehicles penv rm rows)) = length vs \<and>
         store_updates (snd (processAllVehicles penv rm rows)) \<le> length vs \<and>
         pacing_delays (snd (processAllVehicles penv rm rows)) \<le> length vs - 1"
  using processAllVehicles_counts_loop[OF assms, of "length vs"]
    processLoop_v1_counts[of rm "length vs" 0 vs rows]
  by simp

section \<open>Runs in regeneration mode\<close>

lemma distinct_filter_single:
  "distinct (map id_col rows) \<Longrightarrow> k < length rows \<Longrightarrow>
     filter (\<lambda>r. id_col r = id_col (rows ! k)) rows = [rows ! k]"
proof (induction rows arbitrary: k)
  case Nil
  then show ?case by simp
next
  case (Cons a as)
  have d: "distinct (map id_col as)" and out: "id_col a \<notin> id_col ` set as"
    using Cons.prems(1) by simp_all
  have fresh: "\<forall>r\<in>set as. id_col r \<noteq> id_col a"
    using out by (metis imageI)
  show ?case
  proof (cases k)
    case 0
    have "filter (\<lambda>r. id_col r = id_col a) as = []"
      using fresh by (simp add: filter_empty_conv)
    then show ?thesis using 0 by simp
  next
    case (Suc k')
    have k': "k' < length as" using Cons.prems(2) Suc by simp
    have "as ! k' \<in> set as" using k' by simp
    then have ne: "id_col a \<noteq> id_col (as ! k')" using fresh by metis
    show ?thesis using Suc ne Cons.IH[OF d k'] by simp
  qed
qed

lemma update_by_id_pairs:
  "map (\<lambda>r. (id_col r, vehicletype r)) (update_by_id rows k u t) =
   map (\<lambda>r. (id_col r, vehicletype r)) rows"
  by (simp add: update_by_id_def)

lemma processOne_forced:
  assumes "images_generate rm i
      \<lparr>req_model = ''dall-e-3'', req_prompt = generateImagePrompt (vehicletype v),
       req_size = ''1024x1024'', req_quality = ''hd'', req_style = ''vivid'', req_n = 1\<rparr>
      = Inr (img # imgs)"
    and "db_single rm i = None" and "db_update rm i = None"
    and "filter (\<lambda>r. id_col r = id_col v) rows = [cur]"
  shows "fst (processOne rm False n i v rows) = update_by_id rows (id_col v) (url img) (clock rm i)"
  using assms
  by (simp add: processOne_def generateVehicleImage_def updateVehicleImage_def select_single_def)

lemma processLoop_regenerates:
  assumes s: "\<forall>i. db_single rm i = None" and u: "\<forall>i. db_update rm i = None"
    and g: "\<forall>i req. \<exists>img imgs. images_generate rm i req = Inr (img # imgs)"
  shows "distinct (map id_col rows) \<Longrightarrow> distinct (map id_col vs) \<Longrightarrow>
     set (map (\<lambda>r. (id_col r, vehicletype r)) vs) \<subseteq> set (map (\<lambda>r. (id_col r, vehicletype r)) rows) \<Longrightarrow>
     j < length rows \<Longrightarrow> id_col (rows ! j) \<in> id_col ` set vs \<Longrightarrow>
     \<exists>i img imgs. i0 \<le> i \<and> i < i0 + length vs \<and>
       images_generate rm i
         \<lparr>req_model = ''dall-e-3'', req_prompt = generateImagePrompt (vehicletype (rows ! j)),
          req_size = ''1024x1024'', req_quality = ''hd'', req_style = ''vivid'', req_n = 1\<rparr>
         = Inr (img # imgs) \<and>
       fst (processLoop rm False n i0 vs rows) ! j =
         (rows ! j)\<lparr>vehiclegraphic := Some (url img), updated_at := Some (clock rm i)\<rparr>"
proof (induction vs arbitrary: i0 rows)
  case Nil
  then show ?case by simp
next
  case (Cons v vs)
  have "(id_col v, vehicletype v) \<in> set (map (\<lambda>r. (id_col r, vehicletype r)) rows)"
    using Cons.prems(3) by auto
  then obtain k where k: "k < length rows" "id_col (rows ! k) = id_col v"
    "vehicletype (rows ! k) = vehicletype v"
    by (auto simp add: in_set_conv_nth)
  have single: "filter (\<lambda>r. id_col r = id_col v) rows = [rows ! k]"
    using distinct_filter_single[OF Cons.prems(1) k(1)] k(2) by simp
  obtain img imgs where gi: "images_generate rm i0
      \<lparr>req_model = ''dall-e-3'', req_prompt = generateImagePrompt (vehicletype v),
       req_size = ''1024x1024'', req_quality = ''hd'', req_style = ''vivid'', req_n = 1\<rparr>
      = Inr (img # imgs)"
    using g by blast
  define rows1 where "rows1 = update_by_id rows (id_col v) (url img) (clock rm i0)"
  have one: "fst (processOne rm False n i0 v rows) = rows1"
    using processOne_forced[OF gi _ _ single, of n] s u by (simp add: rows1_def)
  obtain ev1 where o1: "processOne rm False n i0 v rows = (rows1, ev1)"
    using one by (cases "processOne rm False n i0 v rows") simp
  have step: "fst (processLoop rm False n i0 (v # vs) rows) = fst (processLoop rm False n (Suc i0) vs rows1)"
    using o1 by (cases "processLoop rm False n (Suc i0) vs rows1") simp
  have len1: "length rows1 = length rows" by (simp add: rows1_def update_by_id_length)
  have ids1: "map id_col rows1 = map id_col rows" by (simp add: rows1_def update_by_id_ids)
  have pairs1: "map (\<lambda>r. (id_col r, vehicletype r)) rows1 = map (\<lambda>r. (id_col r, vehicletype r)) rows"
    by (simp add: rows1_def update_by_id_pairs)
  have j1: "j < length rows1" using Cons.prems(4) len1 by simp
  have nth1: "rows1 ! j = (if id_col (rows ! j) = id_col v
        then (rows ! j)\<lparr>vehiclegraphic := Some (url img), updated_at := Some (clock rm i0)\<rparr>
        else rows ! j)"
    using update_by_id_nth[OF Cons.prems(4)] by (simp add: rows1_def)
  have fresh: "id_col v \<notin> id_col ` set vs" and dvs: "distinct (map id_col vs)"
    using Cons.prems(2) by auto
  show ?case
  proof (cases "id_col (rows ! j) = id_col v")
    case True
    have "rows ! j \<in> set (filter (\<lambda>r. id_col r = id_col v) rows)"
      using True Cons.prems(4) by simp
    then have same: "rows ! j = rows ! k" using single by simp
    have "id_col (rows1 ! j) \<notin> id_col ` set vs"
      using nth1 True fresh by simp
    then have "fst (processLoop rm False n (Suc i0) vs rows1) ! j = rows1 ! j"
      using processLoop_frame[OF j1] by blast
    then have fin: "fst (processLoop rm False n i0 (v # vs) rows) ! j =
        (rows ! j)\<lparr>vehiclegraphic := Some (url img), updated_at := Some (clock rm i0)\<rparr>"
      using step nth1 True by simp
    have req: "images_generate rm i0
      \<lparr>req_model = ''dall-e-3'', req_prompt = generateImagePrompt (vehicletype (rows ! j)),
       req_size = ''1024x1024'', req_quality = ''hd'', req_style = ''vivid'', req_n = 1\<rparr>
      = Inr (img # imgs)"
      using gi same k(3) by simp
    show ?thesis
      using fin req by (intro exI[of _ i0] exI[of _ img] exI[of _ imgs]) simp
  next
    case False
    then have in_vs: "id_col (rows ! j) \<in> id_col ` set vs"
      using Cons.prems(5) by auto
    have keep: "rows1 ! j = rows ! j" using nth1 False by simp
    have d1: "distinct (map id_col rows1)" using ids1 Cons.prems(1) by simp
    have sub1: "set (map (\<lambda>r. (id_col r, vehicletype r)) vs) \<subseteq>
        set (map (\<lambda>r. (id_col r, vehicletype r)) rows1)"
      using Cons.prems(3) pairs1 by auto
    have in1: "id_col (rows1 ! j) \<in> id_col ` set vs" using in_vs keep by simp
    from Cons.IH[OF d1 dvs sub1 j1 in1, of "Suc i0"]
    obtain i img' imgs' where r: "Suc i0 \<le> i" "i < Suc i0 + length vs"
      "images_generate rm i
         \<lparr>req_model = ''dall-e-3'', req_prompt = generateImagePrompt (vehicletype (rows1 ! j)),
          req_size = ''1024x1024'', req_quality = ''hd'', req_style = ''vivid'', req_n = 1\<rparr>
         = Inr (img' # imgs')"
      "fst (processLoop rm False n (Suc i0) vs rows1) ! j =
         (rows1 ! j)\<lparr>vehiclegraphic := Some (url img'), updated_at := Some (clock rm i)\<rparr>"
      by blast
    show ?thesis
      using r step keep by (intro exI[of _ i] exI[of _ img'] exI[of _ imgs']) simp
  qed
qed

lemma regenerate_overwrites_every_row:
  assumes t: "fst (testConnections penv rm)" and f: "db_select rm = None"
    and s: "\<forall>i. db_single rm i = None" and u: "\<forall>i. db_update rm i = None"
    and g: "\<forall>i req. \<exists>img imgs. images_generate rm i req = Inr (img # imgs)"
    and d: "distinct (map id_col rows)" and j: "j < length rows"
  shows "\<exists>i<length rows. \<exists>img imgs.
       images_generate rm i
         \<lparr>req_model = ''dall-e-3'', req_prompt = generateImagePrompt (vehicletype (rows ! j)),
          req_size = ''1024x1024'', req_quality = ''hd'', req_style = ''vivid'', req_n = 1\<rparr>
         = Inr (img # imgs) \<and>
       fst (snd (processVehicles penv rm False rows)) ! j =
         (rows ! j)\<lparr>vehiclegraphic := Some (url img), updated_at := Some (clock rm i)\<rparr>"
proof -
  define vs where "vs = sort_key id_col rows"
  have vs: "vs = (if False then filter (\<lambda>r. vehiclegraphic r = None) rows else sort_key id_col rows)"
    by (simp add: vs_def)
  have setvs: "set vs = set rows" by (simp add: vs_def)
  have lenvs: "length vs = length rows" by (simp add: vs_def)
  have ne: "vs \<noteq> []" using j lenvs by auto
  have dvs: "distinct (map id_col vs)"
    using d setvs by (simp add: distinct_map vs_def)
  have sub: "set (map (\<lambda>r. (id_col r, vehicletype r)) vs) \<subseteq>
      set (map (\<lambda>r. (id_col r, vehicletype r)) rows)"
    using setvs by simp
  have inj: "id_col (rows ! j) \<in> id_col ` set vs"
    using j setvs by simp
  have run: "fst (snd (processVehicles penv rm False rows)) =
      fst (processLoop rm False (length rows) 0 vs rows)"
    using processVehicles_counts_loop[OF t f vs ne, of "length rows"] lenvs by simp
  from processLoop_regenerates[OF s u g d dvs sub j inj, of 0 "length rows"]
  show ?thesis using run lenvs by auto
qed

lemma missing_nonempty: "(0 < length (filter (\<lambda>r. vehiclegraphic r = None) rows)) =
    (\<exists>r\<in>set rows. vehiclegraphic r = None)"
  by (simp add: filter_empty_conv)

lemma main_follows_mode:
  assumes "db_select_first rm = None"
  shows "fst (main penv rm rows) =
           fst (snd (processVehicles penv rm (\<exists>r\<in>set rows. vehiclegraphic r = None) rows)) \<and>
         provider_calls (snd (main penv rm rows)) =
           provider_calls (snd (snd (processVehicles penv rm (\<exists>r\<in>set rows. vehiclegraphic r = None) rows))) \<and>
         store_updates (snd (main penv rm rows)) =
           store_updates (snd (snd (processVehicles penv rm (\<exists>r\<in>set rows. vehiclegraphic r = None) rows)))"
proof -
  obtain res rows' evp where p:
    "processVehicles penv rm (\<exists>r\<in>set rows. vehiclegraphic r = None) rows = (res, rows', evp)"
    by (cases "processVehicles penv rm (\<exists>r\<in>set rows. vehiclegraphic r = None) rows")
  have dc: "provider_calls (displayResults rm rows') = 0" "store_updates (displayResults rm rows') = 0"
    using displayResults_counts[of rm rows'] by simp_all
  show ?thesis
  proof (cases "\<exists>r\<in>set rows. vehiclegraphic r = None")
    case True
    then have m: "0 < length (filter (\<lambda>r. vehiclegraphic r = None) rows)"
      using missing_nonempty by blast
    have eq: "(\<exists>r\<in>set rows. vehiclegraphic r = None) = True" using True by blast
    show ?thesis
      unfolding eq using assms m p[unfolded eq] dc
      by (cases res)
        (simp_all add: main_def getVehiclesWithoutImages_def processOnlyMissingImages_def
          provider_calls_append store_updates_append)
  next
    case False
    then have m: "\<not> 0 < length (filter (\<lambda>r. vehiclegraphic r = None) rows)"
      using missing_nonempty by blast
    have eq: "(\<exists>r\<in>set rows. vehiclegraphic r = None) = False" using False by blast
    show ?thesis
      unfolding eq using assms m p[unfolded eq] dc
      by (cases res)
        (simp_all add: main_def getVehiclesWithoutImages_def regenerateAllImages_def
          provider_calls_append store_updates_append)
  qed
qed

lemma processVehicles_provider_calls:
  "provider_calls (snd (snd (processVehicles penv rm om rows))) =
     (if fst (testConnections penv rm) \<and> db_select rm = None
      then length (if om then filter (\<lambda>r. vehiclegraphic r = None) rows else sort_key id_col rows)
      else 0)"
proof (cases "fst (testConnections penv rm) \<and> db_select rm = None")
  case True
  define vs where "vs = (if om then filter (\<lambda>r. vehiclegraphic r = None) rows else sort_key id_col rows)"
  show ?thesis
  proof (cases "vs = []")
    case e: True
    have "fst (if om then getVehiclesWithoutImages (db_select rm) rows
                   else getAllVehicles (db_select rm) rows) = Inr []"
      using True e by (cases om) (simp_all add: vs_def getVehiclesWithoutImages_def getAllVehicles_def)
    from processVehicles_empty[OF this, of penv] show ?thesis
      using True e by (cases om) (simp_all add: vs_def)
  next
    case ne: False
    have "provider_calls (snd (snd (processVehicles penv rm om rows))) =
           provider_calls (snd (processLoop rm om (length vs) 0 vs rows))"
      using processVehicles_counts_loop[of penv rm vs om rows "length vs"] True ne
      by (simp add: vs_def)
    then show ?thesis
      using processLoop_counts[of rm om "length vs" 0 vs rows] True by (simp add: vs_def)
  qed
next
  case False
  obtain ok evt where t: "testConnections penv rm = (ok, evt)"
    by (cases "testConnections penv rm")
  have ct: "provider_calls evt = 0"
    using testConnections_counts[of penv rm] t by simp
  show ?thesis
  proof (cases ok)
    case f: False
    then show ?thesis using t ct by (simp add: processVehicles_def)
  next
    case True
    then obtain e where e: "db_select rm = Some e" using False t by auto
    show ?thesis
      using t True ct e
      by (simp add: processVehicles_def getVehiclesWithoutImages_def getAllVehicles_def
          provider_calls_append)
  qed
qed

section \<open>Pacing\<close>

text \<open>
  A delay follows record \<open>i\<close> exactly when it is not the last one and both
  calls returned.
\<close>

lemma processOne_delay:
  "pacing_delays (snd (processOne rm om n i v rows)) =
     (if i < n - 1 \<and>
         (\<exists>u b. fst (generateVehicleImage rm i (vehicletype v)) = Inr u \<and>
                fst (updateVehicleImage rm i rows (id_col v) u (\<not> om)) = Inr b)
      then 1 else 0)"
proof -
  obtain g evg where g: "generateVehicleImage rm i (vehicletype v) = (g, evg)"
    by (cases "generateVehicleImage rm i (vehicletype v)")
  have cg: "pacing_delays evg = 0"
    using generate_counts(3)[of rm i "vehicletype v"] g by simp
  show ?thesis
  proof (cases g)
    case (Inl e)
    then show ?thesis
      using g cg by (simp add: processOne_def pacing_delays_append)
  next
    case (Inr u)
    obtain r rows' evu where up: "updateVehicleImage rm i rows (id_col v) u (\<not> om) = (r, rows', evu)"
      by (cases "updateVehicleImage rm i rows (id_col v) u (\<not> om)")
    have cu: "pacing_delays evu = 0"
      using update_counts(3)[of rm i rows "id_col v" u "\<not> om"] up by simp
    show ?thesis
      using g cg Inr up cu
      by (cases r) (simp_all add: processOne_def pacing_delays_append)
  qed
qed

lemma processOne_v1_delay:
  "pacing_delays (snd (processOne_v1 rm n i v rows)) =
     (if i < n - 1 \<and>
         (\<exists>u b. fst (generateVehicleImage_v1 rm i (vehicletype v)) = Inr u \<and>
                fst (updateVehicleImage_v1 rm i rows (id_col v) u) = Inr b)
      then 1 else 0)"
proof -
  obtain g evg where g: "generateVehicleImage_v1 rm i (vehicletype v) = (g, evg)"
    by (cases "generateVehicleImage_v1 rm i (vehicletype v)")
  have cg: "pacing_delays evg = 0"
    using generate_v1_counts(3)[of rm i "vehicletype v"] g by simp
  show ?thesis
  proof (cases g)
    case (Inl e)
    then show ?thesis
      using g cg by (simp add: processOne_v1_def pacing_delays_append)
  next
    case (Inr u)
    obtain r rows' evu where up: "updateVehicleImage_v1 rm i rows (id_col v) u = (r, rows', evu)"
      by (cases "updateVehicleImage_v1 rm i rows (id_col v) u")
    have cu: "pacing_delays evu = 0"
      using update_v1_counts(3)[of rm i rows "id_col v" u] up by simp
    show ?thesis
      using g cg Inr up cu
      by (cases r) (simp_all add: processOne_v1_def pacing_delays_append)
  qed
qed

text \<open>
  C2. A run over N candidates requests N images and sends at most N updates
  (\<open>processVehicles_run_counts\<close>, \<open>processAllVehicles_run_counts\<close>), and the
  claim adds exactly N - 1 pacing delays. The
  timer sits inside the \<open>try\<close>, after the two calls, so a record that fails
  is followed by the next request with no delay: with two candidates and a
  first image request that fails, both requests are made and no delay is
  taken, where the claim requires one.
\<close>

theorem pacing_delay_skipped_after_failure:
  "length (filter (\<lambda>r. vehiclegraphic r = None) [sedan, coupe]) = 2
   \<and> provider_calls (snd (snd (processVehicles env_full remote_first_call_fails True [sedan, coupe]))) = 2
   \<and> pacing_delays (snd (snd (processVehicles env_full remote_first_call_fails True [sedan, coupe]))) = 0
   \<and> provider_calls (snd (processAllVehicles env_full remote_first_call_fails [sedan, coupe])) = 2
   \<and> pacing_delays (snd (processAllVehicles env_full remote_first_call_fails [sedan, coupe])) = 0"
proof -
  have p: "db_probe remote_first_call_fails = None"
    "models_list remote_first_call_fails = None" "db_select remote_first_call_fails = None"
    "images_generate remote_first_call_fails 0 = (\<lambda>req. Inl ''rate limit'')"
    by (simp_all add: remote_first_call_fails_def remote_ok_def)
  have t: "fst (testConnections env_full remote_first_call_fails)"
    using p env_full_complete by (simp add: testConnections_def)
  have c: "[sedan, coupe] = filter (\<lambda>r. vehiclegraphic r = None) [sedan, coupe]"
    by (simp add: sedan_def coupe_def)
  have c': "[sedan, coupe] = (if True then filter (\<lambda>r. vehiclegraphic r = None) [sedan, coupe]
                              else sort_key id_col [sedan, coupe])"
    using c by simp
  have n: "(2::nat) = length [sedan, coupe]" by simp
  have g: "fst (generateVehicleImage remote_first_call_fails 0 (vehicletype sedan)) = Inl (ProviderError ''rate limit'')"
    "fst (generateVehicleImage_v1 remote_first_call_fails 0 (vehicletype sedan)) = Inl (ProviderError ''rate limit'')"
    using p by (simp_all add: generateVehicleImage_def generateVehicleImage_v1_def)
  obtain evg where g0: "generateVehicleImage remote_first_call_fails 0 (vehicletype sedan) = (Inl (ProviderError ''rate limit''), evg)"
    using g(1) by (cases "generateVehicleImage remote_first_call_fails 0 (vehicletype sedan)") simp
  obtain evg1 where g1: "generateVehicleImage_v1 remote_first_call_fails 0 (vehicletype sedan) = (Inl (ProviderError ''rate limit''), evg1)"
    using g(2) by (cases "generateVehicleImage_v1 remote_first_call_fails 0 (vehicletype sedan)") simp
  have cg: "pacing_delays evg = 0" "pacing_delays evg1 = 0"
    using generate_counts(3)[of remote_first_call_fails 0 "vehicletype sedan"]
      generate_v1_counts(3)[of remote_first_call_fails 0 "vehicletype sedan"] g0 g1 by simp_all
  have first: "pacing_delays (snd (processOne remote_first_call_fails True 2 0 sedan rows)) = 0"
    "pacing_delays (snd (processOne_v1 remote_first_call_fails 2 0 sedan rows)) = 0" for rows
    using g0 g1 cg by (simp_all add: processOne_def processOne_v1_def pacing_delays_append)
  have last: "pacing_delays (snd (processOne remote_first_call_fails True 2 (Suc 0) coupe rows)) = 0"
    "pacing_delays (snd (processOne_v1 remote_first_call_fails 2 (Suc 0) coupe rows)) = 0" for rows
    using processOne_counts[of remote_first_call_fails True 2 "Suc 0" coupe rows]
      processOne_v1_counts[of remote_first_call_fails 2 "Suc 0" coupe rows] by simp_all
  have loop: "pacing_delays (snd (processLoop remote_first_call_fails True 2 0 [sedan, coupe] rows)) = 0" for rows
  proof -
    obtain rows0 ev0 where o0: "processOne remote_first_call_fails True 2 0 sedan rows = (rows0, ev0)"
      by (cases "processOne remote_first_call_fails True 2 0 sedan rows")
    obtain rows1 ev1 where o1: "processOne remote_first_call_fails True 2 (Suc 0) coupe rows0 = (rows1, ev1)"
      by (cases "processOne remote_first_call_fails True 2 (Suc 0) coupe rows0")
    show ?thesis
      using first(1)[of rows] last(1)[of rows0] o0 o1 by (simp add: pacing_delays_append)
  qed
  have loop1: "pacing_delays (snd (processLoop_v1 remote_first_call_fails 2 0 [sedan, coupe] rows)) = 0" for rows
  proof -
    obtain rows0 ev0 where o0: "processOne_v1 remote_first_call_fails 2 0 sedan rows = (rows0, ev0)"
      by (cases "processOne_v1 remote_first_call_fails 2 0 sedan rows")
    obtain rows1 ev1 where o1: "processOne_v1 remote_first_call_fails 2 (Suc 0) coupe rows0 = (rows1, ev1)"
      by (cases "processOne_v1 remote_first_call_fails 2 (Suc 0) coupe rows0")
    show ?thesis
      using first(2)[of rows] last(2)[of rows0] o0 o1 by (simp add: pacing_delays_append)
  qed
  have calls: "provider_calls (snd (processLoop remote_first_call_fails True 2 0 [sedan, coupe] [sedan, coupe])) = 2"
    "provider_calls (snd (processLoop_v1 remote_first_call_fails 2 0 [sedan, coupe] [sedan, coupe])) = 2"
    using processLoop_counts[of remote_first_call_fails True 2 0 "[sedan, coupe]" "[sedan, coupe]"]
      processLoop_v1_counts[of remote_first_call_fails 2 0 "[sedan, coupe]" "[sedan, coupe]"]
    by simp_all
  have a: "provider_calls (snd (snd (processVehicles env_full remote_first_call_fails True [sedan, coupe]))) = 2
   \<and> pacing_delays (snd (snd (processVehicles env_full remote_first_call_fails True [sedan, coupe]))) = 0"
    using processVehicles_counts_loop[OF t p(3) c' _ n] loop[of "[sedan, coupe]"] calls(1)
    by simp
  have b: "provider_calls (snd (processAllVehicles env_full remote_first_call_fails [sedan, coupe])) = 2
   \<and> pacing_delays (snd (processAllVehicles env_full remote_first_call_fails [sedan, coupe])) = 0"
    using processAllVehicles_counts_loop[OF env_full_complete(2) p(1) p(2) p(3) c _ n]
      loop1[of "[sedan, coupe]"] calls(2)
    by simp
  have len: "length (filter (\<lambda>r. vehiclegraphic r = None) [sedan, coupe]) = 2"
    using c n by metis
  show ?thesis using a b len by blast
qed

theorem pacing_delay_skipped_after_failure_witness:
  "pacing_delays (snd (snd (processVehicles env_full remote_first_call_fails True [sedan, coupe])))
     \<noteq> length (filter (\<lambda>r. vehiclegraphic r = None) [sedan, coupe]) - 1
   \<and> pacing_delays (snd (processAllVehicles env_full remote_first_call_fails [sedan, coupe]))
     \<noteq> length (filter (\<lambda>r. vehiclegraphic r = None) [sedan, coupe]) - 1"
  using pacing_delay_skipped_after_failure by simp

section \<open>Halt on a failed connectivity check\<close>

text \<open>
  C4. A failed reachability check must halt the run before any record is
  processed. \<open>processAllVehicles\<close> does so for both checks
  (\<open>connectivity_failure_halts_v1\<close>), and \<open>processVehicles\<close> does so for the
  provider (\<open>provider_check_failure_halts\<close>). The reply of the table
  probe in \<open>testConnections\<close> is dropped, though: with a probe that reports
  an error, \<open>testConnections\<close> returns \<open>true\<close> and the run requests an image
  and updates the table.
\<close>

theorem store_probe_failure_not_detected:
  "db_probe remote_probe_fails = Some ''unreachable''
   \<and> fst (testConnections env_full remote_probe_fails)
   \<and> provider_calls (snd (snd (processVehicles env_full remote_probe_fails True [sedan, truck]))) = 1
   \<and> store_updates (snd (snd (processVehicles env_full remote_probe_fails True [sedan, truck]))) = 1
   \<and> fst (snd (processVehicles env_full remote_probe_fails True [sedan, truck])) =
       [sedan\<lparr>vehiclegraphic := Some ''https://img.example/new.png'',
              updated_at := Some ''2024-01-01T00:00:00.000Z''\<rparr>, truck]
   \<and> provider_calls (snd (processAllVehicles env_full remote_probe_fails [sedan, truck])) = 0"
proof -
  have p: "db_probe remote_probe_fails = Some ''unreachable''"
    "models_list remote_probe_fails = None" "db_select remote_probe_fails = None"
    "db_single remote_probe_fails 0 = None" "db_update remote_probe_fails 0 = None"
    "clock remote_probe_fails 0 = ''2024-01-01T00:00:00.000Z''"
    "images_generate remote_probe_fails 0 = (\<lambda>req. Inr [\<lparr>url = ''https://img.example/new.png''\<rparr>])"
    by (simp_all add: remote_probe_fails_def remote_ok_def)
  have t: "testConnections env_full remote_probe_fails =
      (True, [Log '' Testing connections...'' [], DbProbe, ModelsList,
              Log '' All connections successful!'' []])"
    using p env_full_complete by (simp add: testConnections_def)
  have c: "filter (\<lambda>r. vehiclegraphic r = None) [sedan, truck] = [sedan]"
    by (simp add: sedan_def truck_def)
  have g: "generateVehicleImage remote_probe_fails 0 (vehicletype sedan) =
      (Inr ''https://img.example/new.png'',
       [Log '' Generating image for: {}'' [S (vehicletype sedan)],
        ImagesGenerate \<lparr>req_model = ''dall-e-3'', req_prompt = generateImagePrompt (vehicletype sedan),
          req_size = ''1024x1024'', req_quality = ''hd'', req_style = ''vivid'', req_n = 1\<rparr>,
        Log '' Image generated successfully for: {}'' [S (vehicletype sedan)]])"
    using p by (simp add: generateVehicleImage_def)
  have s: "select_single None [sedan, truck] (id_col sedan) = Some sedan"
    by (simp add: select_single_def sedan_def truck_def)
  have nt: "\<not> truthy (vehiclegraphic sedan)"
    by (simp add: sedan_def truthy_def)
  have u: "update_by_id [sedan, truck] (id_col sedan) ''https://img.example/new.png''
             ''2024-01-01T00:00:00.000Z'' =
           [sedan\<lparr>vehiclegraphic := Some ''https://img.example/new.png'',
              updated_at := Some ''2024-01-01T00:00:00.000Z''\<rparr>, truck]"
    by (simp add: update_by_id_def sedan_def truck_def)
  have run: "provider_calls (snd (snd (processVehicles env_full remote_probe_fails True [sedan, truck]))) = 1
   \<and> store_updates (snd (snd (processVehicles env_full remote_probe_fails True [sedan, truck]))) = 1
   \<and> fst (snd (processVehicles env_full remote_probe_fails True [sedan, truck])) =
       [sedan\<lparr>vehiclegraphic := Some ''https://img.example/new.png'',
              updated_at := Some ''2024-01-01T00:00:00.000Z''\<rparr>, truck]"
    using t p c g s nt u
    by (simp add: processVehicles_def getVehiclesWithoutImages_def processOne_def
        updateVehicleImage_def)
  have v1: "provider_calls (snd (processAllVehicles env_full remote_probe_fails [sedan, truck])) = 0"
    using connectivity_failure_halts_v1[of remote_probe_fails env_full "[sedan, truck]"] p by simp
  show ?thesis using p(1) t run v1 by simp
qed

theorem store_probe_failure_not_detected_witness:
  "db_probe remote_probe_fails \<noteq> None
   \<and> provider_calls (snd (snd (processVehicles env_full remote_probe_fails True [sedan, truck]))) \<noteq> 0
   \<and> store_updates (snd (snd (processVehicles env_full remote_probe_fails True [sedan, truck]))) \<noteq> 0
   \<and> fst (snd (processVehicles env_full remote_probe_fails True [sedan, truck])) ! 0 \<noteq> sedan"
proof -
  have "sedan\<lparr>vehiclegraphic := Some ''https://img.example/new.png'',
              updated_at := Some ''2024-01-01T00:00:00.000Z''\<rparr> \<noteq> sedan"
    by (simp add: sedan_def)
  then show ?thesis
    using store_probe_failure_not_detected by simp
qed

section \<open>Choice of the run mode\<close>

text \<open>
  C9. \<open>main\<close> takes no run mode: after a successful first read it runs
  \<open>processVehicles\<close> with \<open>onlyMissing\<close> true exactly when some row lacks an
  image. When no row lacks one it requests an image for every row and, when
  every call succeeds and ids are unique, every row ends with the URL returned
  for it and the time of its update; otherwise it requests at most one image
  per row without an image and leaves the rows that have one as they were.
\<close>

theorem main_infers_run_mode:
  "(db_select_first rm = None \<longrightarrow>
      fst (main penv rm rows) =
        fst (snd (processVehicles penv rm (\<exists>r\<in>set rows. vehiclegraphic r = None) rows)) \<and>
      provider_calls (snd (main penv rm rows)) =
        provider_calls (snd (snd (processVehicles penv rm (\<exists>r\<in>set rows. vehiclegraphic r = None) rows))) \<and>
      store_updates (snd (main penv rm rows)) =
        store_updates (snd (snd (processVehicles penv rm (\<exists>r\<in>set rows. vehiclegraphic r = None) rows))))
   \<and> (db_select_first rm = None \<and> (\<forall>r\<in>set rows. vehiclegraphic r \<noteq> None) \<and>
       fst (testConnections penv rm) \<and> db_select rm = None \<longrightarrow>
         provider_calls (snd (main penv rm rows)) = length rows)
   \<and> (db_select_first rm = None \<and> (\<forall>r\<in>set rows. vehiclegraphic r \<noteq> None) \<and>
       fst (testConnections penv rm) \<and> db_select rm = None \<and>
       (\<forall>i. db_single rm i = None) \<and> (\<forall>i. db_update rm i = None) \<and>
       (\<forall>i req. \<exists>img imgs. images_generate rm i req = Inr (img # imgs)) \<and>
       distinct (map id_col rows) \<longrightarrow>
         (\<forall>j<length rows. \<exists>i<length rows. \<exists>img imgs.
            images_generate rm i
              \<lparr>req_model = ''dall-e-3'', req_prompt = generateImagePrompt (vehicletype (rows ! j)),
               req_size = ''1024x1024'', req_quality = ''hd'', req_style = ''vivid'', req_n = 1\<rparr>
              = Inr (img # imgs) \<and>
            fst (main penv rm rows) ! j =
              (rows ! j)\<lparr>vehiclegraphic := Some (url img), updated_at := Some (clock rm i)\<rparr>))
   \<and> (db_select_first rm = None \<and> (\<exists>r\<in>set rows. vehiclegraphic r = None) \<longrightarrow>
         provider_calls (snd (main penv rm rows)) \<le> length (filter (\<lambda>r. vehiclegraphic r = None) rows) \<and>
         (distinct (map id_col rows) \<longrightarrow>
            (\<forall>j<length rows. vehiclegraphic (rows ! j) \<noteq> None \<longrightarrow>
               fst (main penv rm rows) ! j = rows ! j)))"
proof -
  have a: "db_select_first rm = None \<longrightarrow>
      fst (main penv rm rows) =
        fst (snd (processVehicles penv rm (\<exists>r\<in>set rows. vehiclegraphic r = None) rows)) \<and>
      provider_calls (snd (main penv rm rows)) =
        provider_calls (snd (snd (processVehicles penv rm (\<exists>r\<in>set rows. vehiclegraphic r = None) rows))) \<and>
      store_updates (snd (main penv rm rows)) =
        store_updates (snd (snd (processVehicles penv rm (\<exists>r\<in>set rows. vehiclegraphic r = None) rows)))"
    using main_follows_mode[of rm penv rows] by blast
  have b: "db_select_first rm = None \<and> (\<forall>r\<in>set rows. vehiclegraphic r \<noteq> None) \<and>
       fst (testConnections penv rm) \<and> db_select rm = None \<longrightarrow>
         provider_calls (snd (main penv rm rows)) = length rows"
  proof
    assume h: "db_select_first rm = None \<and> (\<forall>r\<in>set rows. vehiclegraphic r \<noteq> None) \<and>
       fst (testConnections penv rm) \<and> db_select rm = None"
    then have eq: "(\<exists>r\<in>set rows. vehiclegraphic r = None) = False" by blast
    show "provider_calls (snd (main penv rm rows)) = length rows"
      using main_follows_mode[of rm penv rows] h processVehicles_provider_calls[of penv rm False rows]
      unfolding eq by simp
  qed
  have c: "db_select_first rm = None \<and> (\<forall>r\<in>set rows. vehiclegraphic r \<noteq> None) \<and>
       fst (testConnections penv rm) \<and> db_select rm = None \<and>
       (\<forall>i. db_single rm i = None) \<and> (\<forall>i. db_update rm i = None) \<and>
       (\<forall>i req. \<exists>img imgs. images_generate rm i req = Inr (img # imgs)) \<and>
       distinct (map id_col rows) \<longrightarrow>
         (\<forall>j<length rows. \<exists>i<length rows. \<exists>img imgs.
            images_generate rm i
              \<lparr>req_model = ''dall-e-3'', req_prompt = generateImagePrompt (vehicletype (rows ! j)),
               req_size = ''1024x1024'', req_quality = ''hd'', req_style = ''vivid'', req_n = 1\<rparr>
              = Inr (img # imgs) \<and>
            fst (main penv rm rows) ! j =
              (rows ! j)\<lparr>vehiclegraphic := Some (url img), updated_at := Some (clock rm i)\<rparr>)"
  proof (intro impI allI)
    fix j
    assume h: "db_select_first rm = None \<and> (\<forall>r\<in>set rows. vehiclegraphic r \<noteq> None) \<and>
       fst (testConnections penv rm) \<and> db_select rm = None \<and>
       (\<forall>i. db_single rm i = None) \<and> (\<forall>i. db_update rm i = None) \<and>
       (\<forall>i req. \<exists>img imgs. images_generate rm i req = Inr (img # imgs)) \<and>
       distinct (map id_col rows)" and j: "j < length rows"
    then have eq: "(\<exists>r\<in>set rows. vehiclegraphic r = None) = False" by blast
    have m: "fst (main penv rm rows) = fst (snd (processVehicles penv rm False rows))"
      using main_follows_mode[of rm penv rows] h unfolding eq by simp
    show "\<exists>i<length rows. \<exists>img imgs.
            images_generate rm i
              \<lparr>req_model = ''dall-e-3'', req_prompt = generateImagePrompt (vehicletype (rows ! j)),
               req_size = ''1024x1024'', req_quality = ''hd'', req_style = ''vivid'', req_n = 1\<rparr>
              = Inr (img # imgs) \<and>
            fst (main penv rm rows) ! j =
              (rows ! j)\<lparr>vehiclegraphic := Some (url img), updated_at := Some (clock rm i)\<rparr>"
      unfolding m
      by (rule regenerate_overwrites_every_row[OF h[THEN conjunct2, THEN conjunct2, THEN conjunct1]
            h[THEN conjunct2, THEN conjunct2, THEN conjunct2, THEN conjunct1]
            h[THEN conjunct2, THEN conjunct2, THEN conjunct2, THEN conjunct2, THEN conjunct1]
            h[THEN conjunct2, THEN conjunct2, THEN conjunct2, THEN conjunct2, THEN conjunct2, THEN conjunct1]
            h[THEN conjunct2, THEN conjunct2, THEN conjunct2, THEN conjunct2, THEN conjunct2, THEN conjunct2, THEN conjunct1]
            h[THEN conjunct2, THEN conjunct2, THEN conjunct2, THEN conjunct2, THEN conjunct2, THEN conjunct2, THEN conjunct2]
            j])
  qed
  have d: "db_select_first rm = None \<and> (\<exists>r\<in>set rows. vehiclegraphic r = None) \<longrightarrow>
         provider_calls (snd (main penv rm rows)) \<le> length (filter (\<lambda>r. vehiclegraphic r = None) rows) \<and>
         (distinct (map id_col rows) \<longrightarrow>
            (\<forall>j<length rows. vehiclegraphic (rows ! j) \<noteq> None \<longrightarrow>
               fst (main penv rm rows) ! j = rows ! j))"
  proof
    assume h: "db_select_first rm = None \<and> (\<exists>r\<in>set rows. vehiclegraphic r = None)"
    then have eq: "(\<exists>r\<in>set rows. vehiclegraphic r = None) = True" by blast
    have m: "fst (main penv rm rows) = fst (snd (processVehicles penv rm True rows))"
      "provider_calls (snd (main penv rm rows)) = provider_calls (snd (snd (processVehicles penv rm True rows)))"
      using main_follows_mode[of rm penv rows] h unfolding eq by simp_all
    have le: "provider_calls (snd (main penv rm rows)) \<le> length (filter (\<lambda>r. vehiclegraphic r = None) rows)"
      using processVehicles_provider_calls[of penv rm True rows] m(2) by simp
    have keep: "distinct (map id_col rows) \<longrightarrow>
            (\<forall>j<length rows. vehiclegraphic (rows ! j) \<noteq> None \<longrightarrow>
               fst (main penv rm rows) ! j = rows ! j)"
      using incremental_keeps_present[of rows _ penv rm] unfolding m(1) by blast
    show "provider_calls (snd (main penv rm rows)) \<le> length (filter (\<lambda>r. vehiclegraphic r = None) rows) \<and>
         (distinct (map id_col rows) \<longrightarrow>
            (\<forall>j<length rows. vehiclegraphic (rows ! j) \<noteq> None \<longrightarrow>
               fst (main penv rm rows) ! j = rows ! j))"
      using le keep by blast
  qed
  show ?thesis using a b c d by blast
qed

theorem main_infers_run_mode_witness:
  "vehiclegraphic (fst (main env_full remote_ok [truck]) ! 0) = Some ''https://img.example/new.png''
   \<and> provider_calls (snd (main env_full remote_ok [truck])) = 1
   \<and> fst (main env_full remote_ok [sedan, truck]) ! 1 = truck
   \<and> provider_calls (snd (main env_full remote_ok [sedan, truck])) \<le> 1"
proof -
  note all_have = main_infers_run_mode[of remote_ok env_full "[truck]"]
  note one_missing = main_infers_run_mode[of remote_ok env_full "[sedan, truck]"]
  have r: "db_select_first remote_ok = None" "db_select remote_ok = None"
    "\<forall>i. db_single remote_ok i = None" "\<forall>i. db_update remote_ok i = None"
    "\<forall>i req. \<exists>img imgs. images_generate remote_ok i req = Inr (img # imgs)"
    "db_probe remote_ok = None" "models_list remote_ok = None"
    by (simp_all add: remote_ok_def)
  have t: "fst (testConnections env_full remote_ok)"
    using r env_full_complete by (simp add: testConnections_def)
  have h1: "\<forall>r\<in>set [truck]. vehiclegraphic r \<noteq> None" "distinct (map id_col [truck])"
    "(0::nat) < length [truck]" "length [truck] = 1" "[truck] ! 0 = truck"
    by (simp_all add: truck_def)
  have h2: "\<exists>r\<in>set [sedan, truck]. vehiclegraphic r = None" "distinct (map id_col [sedan, truck])"
    "(1::nat) < length [sedan, truck]" "[sedan, truck] ! 1 = truck" "vehiclegraphic truck \<noteq> None"
    "length (filter (\<lambda>r. vehiclegraphic r = None) [sedan, truck]) = 1"
    by (simp_all add: sedan_def truck_def)
  have hyp: "db_select_first remote_ok = None \<and> (\<forall>r\<in>set [truck]. vehiclegraphic r \<noteq> None) \<and>
       fst (testConnections env_full remote_ok) \<and> db_select remote_ok = None \<and>
       (\<forall>i. db_single remote_ok i = None) \<and> (\<forall>i. db_update remote_ok i = None) \<and>
       (\<forall>i req. \<exists>img imgs. images_generate remote_ok i req = Inr (img # imgs)) \<and>
       distinct (map id_col [truck])"
    using r(1-5) t h1(1,2) by (intro conjI)
  note every = all_have[THEN conjunct2, THEN conjunct2, THEN conjunct1, THEN mp, OF hyp]
  note first = every[THEN spec, of 0, THEN mp, OF h1(3)]
  from first[unfolded h1(5)]
  obtain i img imgs where o: "images_generate remote_ok i
              \<lparr>req_model = ''dall-e-3'', req_prompt = generateImagePrompt (vehicletype truck),
               req_size = ''1024x1024'', req_quality = ''hd'', req_style = ''vivid'', req_n = 1\<rparr>
              = Inr (img # imgs)"
     "fst (main env_full remote_ok [truck]) ! 0 =
        truck\<lparr>vehiclegraphic := Some (url img), updated_at := Some (clock remote_ok i)\<rparr>"
    by blast
  have "url img = ''https://img.example/new.png''"
    using o(1) by (auto simp add: remote_ok_def)
  then have w1: "vehiclegraphic (fst (main env_full remote_ok [truck]) ! 0) = Some ''https://img.example/new.png''"
    using o(2) by simp
  have w2: "provider_calls (snd (main env_full remote_ok [truck])) = 1"
    using all_have[THEN conjunct2, THEN conjunct1] r t h1 by simp
  have w3: "fst (main env_full remote_ok [sedan, truck]) ! 1 = truck"
    using one_missing[THEN conjunct2, THEN conjunct2, THEN conjunct2] r(1) h2 by metis
  have w4: "provider_calls (snd (main env_full remote_ok [sedan, truck])) \<le> 1"
    using one_missing[THEN conjunct2, THEN conjunct2, THEN conjunct2] r(1) h2 by metis
  show ?thesis using w1 w2 w3 w4 by blast
qed

end
